theory Spec2Isabelle
  imports Complex_Main
begin

section \<open>Numbers, errors and strings\<close>

text \<open>
  The calculation engine of the CGPA calculator (\<^verbatim>\<open>lib/calculator.ts\<close>,
  \<^verbatim>\<open>lib/statistics.ts\<close>, \<^verbatim>\<open>lib/intrasemester.ts\<close>, \<^verbatim>\<open>lib/chartData.ts\<close>) is
  embedded as HOL functions.

  A JavaScript \<^verbatim>\<open>number\<close> is modelled as a \<^typ>\<open>real\<close>, and \<^verbatim>\<open>NaN\<close> and the
  infinities do not exist. The only way the source can leave the finite numbers from
  finite inputs, short of an overflow, is a division whose divisor is zero, so every
  division by a computed divisor goes through \<open>js_div\<close>, which reports
  \<open>NonFinite\<close> instead of a quotient. \<open>TypeError\<close> is the exception JavaScript
  throws when a property of \<^verbatim>\<open>undefined\<close> is read (element \<^verbatim>\<open>[0]\<close> or
  \<^verbatim>\<open>[length - 1]\<close> of an empty array). \<open>UnspecifiedOrder\<close> is the outcome of
  \<^verbatim>\<open>Array.prototype.sort\<close> with a comparator that is not a consistent ordering, which
  the language leaves to the implementation.

  Every function is embedded with the exact operations of \<^typ>\<open>real\<close>. The two target
  solvers and the functions they call are embedded a second time (suffix \<open>_in\<close>, in
  the section on machine arithmetic) with the arithmetic as a parameter: their results
  are compared with thresholds and rounded to two decimals, so the last bit of a value
  matters, and what is proved for every arithmetic holds of the program as it runs on
  IEEE doubles, where each operation rounds its result.

  A value of type \<^verbatim>\<open>T | null | undefined\<close> is a \<^typ>\<open>'a option\<close>; the source never
  distinguishes \<^verbatim>\<open>null\<close> from \<^verbatim>\<open>undefined\<close>.
\<close>

datatype error = NonFinite | TypeError | UnspecifiedOrder

definition js_div :: "real \<Rightarrow> real \<Rightarrow> error + real" where
  "js_div a b = (if b = 0 then Inl NonFinite else Inr (a / b))"

definition bindE :: "error + 'a \<Rightarrow> ('a \<Rightarrow> error + 'b) \<Rightarrow> error + 'b" where
  "bindE m f = (case m of Inl e \<Rightarrow> Inl e | Inr x \<Rightarrow> f x)"

text \<open>\<^verbatim>\<open>Math.round\<close>: the nearest integer, a tie going towards plus infinity.\<close>

definition js_round :: "real \<Rightarrow> real" where
  "js_round x = of_int \<lfloor>x + 1 / 2\<rfloor>"

text \<open>\<^verbatim>\<open>x || 0\<close> on a nullable number: \<^verbatim>\<open>null\<close>, \<^verbatim>\<open>undefined\<close> and \<^verbatim>\<open>0\<close> are falsy.\<close>

definition or_zero :: "real option \<Rightarrow> real" where
  "or_zero v = (case v of None \<Rightarrow> 0 | Some x \<Rightarrow> (if x = 0 then 0 else x))"

text \<open>
  Strings are byte strings. \<^verbatim>\<open>toUpperCase\<close> is modelled on the ASCII letters and
  \<^verbatim>\<open>trim\<close> on the ASCII white space (tab, line feed, vertical tab, form feed,
  carriage return, space).
\<close>

definition upper_char :: "char \<Rightarrow> char" where
  "upper_char c =
     (let n = (of_char c :: nat)
      in if 97 \<le> n \<and> n \<le> 122 then char_of (n - 32) else c)"

definition toUpperCase :: "string \<Rightarrow> string" where
  "toUpperCase s = map upper_char s"

definition is_space :: "char \<Rightarrow> bool" where
  "is_space c \<longleftrightarrow> c \<in> set [CHR 0x09, CHR 0x0A, CHR 0x0B, CHR 0x0C, CHR 0x0D, CHR '' '']"

definition trim :: "string \<Rightarrow> string" where
  "trim s = rev (dropWhile is_space (rev (dropWhile is_space s)))"

section \<open>Data model (\<^verbatim>\<open>types/schema.ts\<close>)\<close>

text \<open>
  Field names are the source's, with a prefix where two records of the source share a
  name: \<open>sem_id\<close>, \<open>sem_name\<close>, \<open>sem_gpa\<close> and \<open>sem_order\<close> are \<^verbatim>\<open>Semester.id\<close>,
  \<^verbatim>\<open>.name\<close>, \<^verbatim>\<open>.gpa\<close> and \<^verbatim>\<open>.order\<close>; \<open>tpl_name\<close>, \<open>tpl_scale\<close> and
  \<open>tpl_description\<close> are the fields of \<^verbatim>\<open>GradeTemplate\<close>; \<open>mp_gradePoint\<close> is
  \<^verbatim>\<open>GradeMapping.gradePoint\<close>. The component marks of a
  course (\<^verbatim>\<open>endsem\<close>, \<^verbatim>\<open>midsem\<close>, \<^verbatim>\<open>internals\<close> and their maxima) are read by no
  function of the engine and are left out. \<open>manualGPA\<close> and \<open>manualCredits\<close> are the
  optional, nullable numbers that \<^verbatim>\<open>calculator.ts\<close> reads from a semester.
\<close>

datatype GradeType = gt_letter | gt_marks

datatype RepeatPolicy = latest | highest | average

record Course =
  code :: "string option"
  name :: string
  credits :: real
  gradeType :: GradeType
  grade :: "string option"
  marks :: "real option"
  gradePoint :: "real option"

record Semester =
  sem_id :: string
  sem_name :: string
  courses :: "Course list"
  sem_gpa :: "real option"
  sem_order :: real
  manualGPA :: "real option"
  manualCredits :: "real option"

record GradeMapping =
  minMarks :: real
  maxMarks :: real
  letterGrade :: string
  mp_gradePoint :: real

record GradeTemplate =
  tpl_name :: string
  tpl_scale :: real
  tpl_description :: "string option"
  mappings :: "GradeMapping list"

record SessionMetadata =
  scale :: real
  roundTo :: real
  repeatPolicy :: RepeatPolicy

record Session =
  semesters :: "Semester list"
  metadata :: SessionMetadata

section \<open>Grades and points of a semester (\<^verbatim>\<open>lib/calculator.ts\<close>)\<close>

text \<open>
  The loop of \<^verbatim>\<open>calculateGPA\<close> over the courses, on the pair of accumulators
  \<^verbatim>\<open>(totalPoints, totalCredits)\<close>. The same loop is the inner loop of
  \<^verbatim>\<open>calculateCGPA\<close>, which runs it on accumulators shared by all semesters.
\<close>

fun gpa_loop :: "Course list \<Rightarrow> real \<times> real \<Rightarrow> real \<times> real" where
  "gpa_loop [] acc = acc"
| "gpa_loop (course # rest) (totalPoints, totalCredits) =
     (case gradePoint course of
        None \<Rightarrow> gpa_loop rest (totalPoints, totalCredits)
      | Some gp \<Rightarrow>
          if credits course = 0 then gpa_loop rest (totalPoints, totalCredits)
          else gpa_loop rest (totalPoints + gp * credits course, totalCredits + credits course))"

definition calculateGPA :: "Course list \<Rightarrow> error + real option" where
  "calculateGPA cs =
     (case gpa_loop cs (0, 0) of (totalPoints, totalCredits) \<Rightarrow>
        if totalCredits = 0 then Inr None
        else bindE (js_div totalPoints totalCredits) (\<lambda>q. Inr (Some q)))"

fun cgpa_loop :: "Semester list \<Rightarrow> real \<times> real \<Rightarrow> real \<times> real" where
  "cgpa_loop [] acc = acc"
| "cgpa_loop (semester # rest) (totalPoints, totalCredits) =
     (if length (courses semester) > 0
      then cgpa_loop rest (gpa_loop (courses semester) (totalPoints, totalCredits))
      else (case manualGPA semester of
              None \<Rightarrow> cgpa_loop rest (totalPoints, totalCredits)
            | Some mg \<Rightarrow>
               (case manualCredits semester of
                  None \<Rightarrow> cgpa_loop rest (totalPoints, totalCredits)
                | Some mc \<Rightarrow>
                    if mc > 0 then cgpa_loop rest (totalPoints + mg * mc, totalCredits + mc)
                    else cgpa_loop rest (totalPoints, totalCredits))))"

definition calculateCGPA :: "Semester list \<Rightarrow> error + real option" where
  "calculateCGPA sems =
     (case cgpa_loop sems (0, 0) of (totalPoints, totalCredits) \<Rightarrow>
        if totalCredits = 0 then Inr None
        else bindE (js_div totalPoints totalCredits) (\<lambda>q. Inr (Some q)))"

record SemesterGPA =
  gpa :: "real option"
  isManual :: bool

definition getSemesterGPA :: "Semester \<Rightarrow> error + SemesterGPA" where
  "getSemesterGPA semester =
     (if length (courses semester) > 0
      then bindE (calculateGPA (courses semester)) (\<lambda>g. Inr \<lparr>gpa = g, isManual = False\<rparr>)
      else (case manualGPA semester of
              Some mg \<Rightarrow> Inr \<lparr>gpa = Some mg, isManual = True\<rparr>
            | None \<Rightarrow> Inr \<lparr>gpa = None, isManual = False\<rparr>))"

text \<open>\<^verbatim>\<open>c.credits || 0\<close> is \<^verbatim>\<open>c.credits\<close> on every number of the model.\<close>

definition getSemesterCredits :: "Semester \<Rightarrow> real" where
  "getSemesterCredits semester =
     (if length (courses semester) > 0
      then foldl (\<lambda>sum c. sum + (if credits c = 0 then 0 else credits c)) 0 (courses semester)
      else (case manualCredits semester of Some mc \<Rightarrow> mc | None \<Rightarrow> 0))"

section \<open>Grade conversion tables (\<^verbatim>\<open>lib/calculator.ts\<close>)\<close>

definition BIT_MESRA_10_POINT :: GradeTemplate where
  "BIT_MESRA_10_POINT =
     \<lparr>tpl_name = ''BIT Mesra 10-Point'', tpl_scale = 10,
      tpl_description = Some ''Official BIT Mesra grading system (10-point scale)'',
      mappings =
        [\<lparr>minMarks = 91, maxMarks = 100, letterGrade = ''A+/O'', mp_gradePoint = 10\<rparr>,
         \<lparr>minMarks = 81, maxMarks = 90, letterGrade = ''A'', mp_gradePoint = 9\<rparr>,
         \<lparr>minMarks = 71, maxMarks = 80, letterGrade = ''B'', mp_gradePoint = 8\<rparr>,
         \<lparr>minMarks = 61, maxMarks = 70, letterGrade = ''C'', mp_gradePoint = 7\<rparr>,
         \<lparr>minMarks = 51, maxMarks = 60, letterGrade = ''D'', mp_gradePoint = 6\<rparr>,
         \<lparr>minMarks = 41, maxMarks = 50, letterGrade = ''E'', mp_gradePoint = 5\<rparr>,
         \<lparr>minMarks = 0, maxMarks = 40, letterGrade = ''F'', mp_gradePoint = 0\<rparr>]\<rparr>"

definition STANDARD_4_POINT :: GradeTemplate where
  "STANDARD_4_POINT =
     \<lparr>tpl_name = ''Standard 4-Point'', tpl_scale = 4,
      tpl_description = Some ''Standard US 4.0 grading scale'',
      mappings =
        [\<lparr>minMarks = 93, maxMarks = 100, letterGrade = ''A+'', mp_gradePoint = 4\<rparr>,
         \<lparr>minMarks = 90, maxMarks = 92, letterGrade = ''A'', mp_gradePoint = 4\<rparr>,
         \<lparr>minMarks = 87, maxMarks = 89, letterGrade = ''A-'', mp_gradePoint = 3.7\<rparr>,
         \<lparr>minMarks = 83, maxMarks = 86, letterGrade = ''B+'', mp_gradePoint = 3.3\<rparr>,
         \<lparr>minMarks = 80, maxMarks = 82, letterGrade = ''B'', mp_gradePoint = 3\<rparr>,
         \<lparr>minMarks = 77, maxMarks = 79, letterGrade = ''B-'', mp_gradePoint = 2.7\<rparr>,
         \<lparr>minMarks = 73, maxMarks = 76, letterGrade = ''C+'', mp_gradePoint = 2.3\<rparr>,
         \<lparr>minMarks = 70, maxMarks = 72, letterGrade = ''C'', mp_gradePoint = 2\<rparr>,
         \<lparr>minMarks = 67, maxMarks = 69, letterGrade = ''C-'', mp_gradePoint = 1.7\<rparr>,
         \<lparr>minMarks = 63, maxMarks = 66, letterGrade = ''D+'', mp_gradePoint = 1.3\<rparr>,
         \<lparr>minMarks = 60, maxMarks = 62, letterGrade = ''D'', mp_gradePoint = 1\<rparr>,
         \<lparr>minMarks = 0, maxMarks = 59, letterGrade = ''F'', mp_gradePoint = 0\<rparr>]\<rparr>"

definition LETTER_TO_POINTS_10 :: "(string \<times> real) list" where
  "LETTER_TO_POINTS_10 =
     [(''A+/O'', 10), (''A+'', 10), (''O'', 10), (''A'', 9), (''B'', 8), (''C'', 7),
      (''D'', 6), (''E'', 5), (''F'', 0)]"

definition LETTER_TO_POINTS_4 :: "(string \<times> real) list" where
  "LETTER_TO_POINTS_4 =
     [(''A+'', 4), (''A'', 4), (''A-'', 3.7), (''B+'', 3.3), (''B'', 3), (''B-'', 2.7),
      (''C+'', 2.3), (''C'', 2), (''C-'', 1.7), (''D+'', 1.3), (''D'', 1), (''D-'', 0.7),
      (''F'', 0)]"

text \<open>
  The \<^verbatim>\<open>for\<close> loop of \<^verbatim>\<open>convertMarksToGrade\<close>, which returns at the first mapping
  whose interval holds the marks; \<open>None\<close> when the loop falls through.
\<close>

fun marks_loop :: "real \<Rightarrow> GradeMapping list \<Rightarrow> string option" where
  "marks_loop m [] = None"
| "marks_loop m (mapping # rest) =
     (if m \<ge> minMarks mapping \<and> m \<le> maxMarks mapping then Some (letterGrade mapping)
      else marks_loop m rest)"

definition convertMarksToGrade :: "real \<Rightarrow> GradeTemplate \<Rightarrow> error + string" where
  "convertMarksToGrade m template =
     (case marks_loop m (mappings template) of
        Some g \<Rightarrow> Inr g
      | None \<Rightarrow>
          (case mappings template of
             [] \<Rightarrow> Inl TypeError
           | _ # _ \<Rightarrow> Inr (letterGrade (last (mappings template)))))"

definition convertGradeToPoints :: "string \<Rightarrow> real \<Rightarrow> GradeTemplate option \<Rightarrow> real" where
  "convertGradeToPoints g scl template =
     (let upperGrade = trim (toUpperCase g)
      in case (case template of
                 None \<Rightarrow> None
               | Some t \<Rightarrow> find (\<lambda>m. toUpperCase (letterGrade m) = upperGrade) (mappings t)) of
           Some mapping \<Rightarrow> mp_gradePoint mapping
         | None \<Rightarrow>
             if scl = 10
             then (case map_of LETTER_TO_POINTS_10 upperGrade of Some p \<Rightarrow> p | None \<Rightarrow> 0)
             else (case map_of LETTER_TO_POINTS_4 upperGrade of Some p \<Rightarrow> p | None \<Rightarrow> 0))"

record MarksPoints =
  mp_letter :: string
  mp_points :: real

definition convertMarksToPoints :: "real \<Rightarrow> GradeTemplate \<Rightarrow> error + MarksPoints" where
  "convertMarksToPoints m template =
     bindE (convertMarksToGrade m template) (\<lambda>l.
       Inr \<lparr>mp_letter = l, mp_points = convertGradeToPoints l (tpl_scale template) (Some template)\<rparr>)"

text \<open>
  \<^verbatim>\<open>roundForDisplay\<close> at its default \<^verbatim>\<open>decimals = 2\<close>, which every caller in the engine
  uses: \<^verbatim>\<open>Math.pow(10, decimals)\<close> is the constant 100.
\<close>

definition roundForDisplay :: "real option \<Rightarrow> real option" where
  "roundForDisplay v = (case v of None \<Rightarrow> None | Some x \<Rightarrow> Some (js_round (x * 100) / 100))"

section \<open>Statistics (\<^verbatim>\<open>lib/statistics.ts\<close>)\<close>

datatype TrendDirection = improving | declining | stable | unknown

text \<open>
  The histograms are plain objects, \<^verbatim>\<open>const d: Record<string, number> = {}\<close>, filled
  by \<^verbatim>\<open>d[k] = (d[k] || 0) + 1\<close>. The own properties of such an object are an
  association list in insertion order (the numeric-key ordering of \<^verbatim>\<open>Object.entries\<close>
  is outside the model). Reading \<^verbatim>\<open>d[k]\<close> falls back to \<^verbatim>\<open>Object.prototype\<close> when
  \<open>k\<close> is not an own property: \<open>inherited k\<close> is the text that \<^verbatim>\<open>+\<close> turns the inherited
  value into (a built-in function as V8 and JavaScriptCore print it; the prototype
  object itself for \<^verbatim>\<open>__proto__\<close>), and \<open>None\<close> when nothing is inherited. Every
  inherited value is truthy, so \<^verbatim>\<open>(d[k] || 0) + 1\<close> is then a string concatenation, and a
  stored value is a number or a string. An assignment to \<^verbatim>\<open>d['__proto__']\<close> of a
  string goes to the setter of \<^verbatim>\<open>Object.prototype\<close>, which ignores it.
\<close>

datatype jsval = Num nat | Str string

definition prototype_methods :: "string list" where
  "prototype_methods =
     [''__defineGetter__'', ''__defineSetter__'', ''hasOwnProperty'', ''__lookupGetter__'',
      ''__lookupSetter__'', ''isPrototypeOf'', ''propertyIsEnumerable'', ''toString'',
      ''valueOf'', ''toLocaleString'']"

definition inherited :: "string \<Rightarrow> string option" where
  "inherited k =
     (if k = ''constructor'' then Some ''function Object() { [native code] }''
      else if k \<in> set prototype_methods then Some (''function '' @ k @ ''() { [native code] }'')
      else if k = ''__proto__'' then Some ''[object Object]''
      else None)"

text \<open>\<open>plus_one d k\<close> is \<^verbatim>\<open>(d[k] || 0) + 1\<close>; the number 0 and the empty string are falsy.\<close>

definition plus_one :: "(string \<times> jsval) list \<Rightarrow> string \<Rightarrow> jsval" where
  "plus_one d k =
     (case map_of d k of
        Some (Num n) \<Rightarrow> Num (n + 1)
      | Some (Str t) \<Rightarrow> if t = [] then Num 1 else Str (t @ ''1'')
      | None \<Rightarrow> (case inherited k of Some t \<Rightarrow> Str (t @ ''1'') | None \<Rightarrow> Num 1))"

fun put :: "string \<Rightarrow> jsval \<Rightarrow> (string \<times> jsval) list \<Rightarrow> (string \<times> jsval) list" where
  "put k v [] = [(k, v)]"
| "put k v ((k', v') # rest) = (if k' = k then (k', v) # rest else (k', v') # put k v rest)"

definition bump :: "string \<Rightarrow> (string \<times> jsval) list \<Rightarrow> (string \<times> jsval) list" where
  "bump k d = (if k = ''__proto__'' then d else put k (plus_one d k) d)"

text \<open>
  \<open>count_grades\<close> is the inner \<^verbatim>\<open>forEach\<close> over the courses of one semester, where
  \<^verbatim>\<open>if (course.grade)\<close> holds for a grade that is present and not the empty string.
\<close>

fun count_grades :: "Course list \<Rightarrow> (string \<times> jsval) list \<Rightarrow> (string \<times> jsval) list" where
  "count_grades [] d = d"
| "count_grades (course # rest) d =
     (case grade course of
        None \<Rightarrow> count_grades rest d
      | Some g \<Rightarrow> if g \<noteq> [] then count_grades rest (bump g d) else count_grades rest d)"

text \<open>
  The body of \<^verbatim>\<open>semesters.forEach\<close> in \<^verbatim>\<open>calculateStatistics\<close>, on the accumulators
  \<^verbatim>\<open>(totalCourses, totalCredits, gradeDistribution, semesterGPAs, semestersWithData)\<close>.
\<close>

type_synonym stats_acc = "nat \<times> real \<times> (string \<times> jsval) list \<times> real list \<times> nat"

fun stats_loop :: "Semester list \<Rightarrow> stats_acc \<Rightarrow> error + stats_acc" where
  "stats_loop [] acc = Inr acc"
| "stats_loop (semester # rest) (totalCourses, totalCredits, gradeDistribution, semesterGPAs, semestersWithData) =
     (case getSemesterGPA semester of
        Inl e \<Rightarrow> Inl e
      | Inr r \<Rightarrow>
          (let totalCourses' = totalCourses + length (courses semester);
               totalCredits' = totalCredits + getSemesterCredits semester;
               gradeDistribution' = count_grades (courses semester) gradeDistribution
           in case gpa r of
                Some g \<Rightarrow>
                  stats_loop rest (totalCourses', totalCredits', gradeDistribution',
                                   semesterGPAs @ [g], semestersWithData + 1)
              | None \<Rightarrow>
                  stats_loop rest (totalCourses', totalCredits', gradeDistribution',
                                   semesterGPAs, semestersWithData)))"

text \<open>
  The trend block of \<^verbatim>\<open>calculateStatistics\<close>. \<^verbatim>\<open>slice(-3)\<close> keeps the last three
  elements (all of them when there are fewer).
\<close>

definition trend_of :: "real list \<Rightarrow> error + TrendDirection" where
  "trend_of semesterGPAs =
     (if length semesterGPAs \<ge> 2 then
        (let recentGPAs = drop (length semesterGPAs - 3) semesterGPAs;
             firstHalf = take (length recentGPAs div 2) recentGPAs;
             secondHalf = drop (length recentGPAs div 2) recentGPAs
         in bindE (js_div (foldl (+) 0 firstHalf) (real (length firstHalf))) (\<lambda>avgFirst.
            bindE (js_div (foldl (+) 0 secondHalf) (real (length secondHalf))) (\<lambda>avgSecond.
              Inr (if avgSecond > avgFirst + 0.2 then improving
                   else if avgSecond < avgFirst - 0.2 then declining
                   else stable))))
      else Inr unknown)"

text \<open>\<^verbatim>\<open>Math.max(...xs)\<close> and \<^verbatim>\<open>Math.min(...xs)\<close> under the guard \<^verbatim>\<open>xs.length > 0\<close>.\<close>

definition max_or_null :: "real list \<Rightarrow> real option" where
  "max_or_null xs = (case xs of [] \<Rightarrow> None | x # rest \<Rightarrow> Some (fold max rest x))"

definition min_or_null :: "real list \<Rightarrow> real option" where
  "min_or_null xs = (case xs of [] \<Rightarrow> None | x # rest \<Rightarrow> Some (fold min rest x))"

record Statistics =
  totalCourses :: nat
  totalCredits :: real
  averageCreditsPerSemester :: real
  highestSemesterGPA :: "real option"
  lowestSemesterGPA :: "real option"
  gradeDistribution :: "(string \<times> jsval) list"
  trendDirection :: TrendDirection

definition calculateStatistics :: "Session \<Rightarrow> error + Statistics" where
  "calculateStatistics session =
     bindE (stats_loop (semesters session) (0, 0, [], [], 0))
       (\<lambda>(totalCourses', totalCredits', gradeDistribution', semesterGPAs, semestersWithData).
     bindE (if semestersWithData > 0 then js_div totalCredits' (real semestersWithData) else Inr 0)
       (\<lambda>averageCreditsPerSemester'.
     bindE (trend_of semesterGPAs) (\<lambda>trendDirection'.
       Inr \<lparr>totalCourses = totalCourses',
            totalCredits = totalCredits',
            averageCreditsPerSemester = or_zero (roundForDisplay (Some averageCreditsPerSemester')),
            highestSemesterGPA = roundForDisplay (max_or_null semesterGPAs),
            lowestSemesterGPA = roundForDisplay (min_or_null semesterGPAs),
            gradeDistribution = gradeDistribution',
            trendDirection = trendDirection'\<rparr>)))"

text \<open>
  The chronological order that the chart projectors build before they read the
  semesters: \<^verbatim>\<open>[...session.semesters].sort((a, b) => a.order - b.order)\<close>, a stable
  sort on \<^verbatim>\<open>order\<close>.
\<close>

definition sortedSemesters :: "Session \<Rightarrow> Semester list" where
  "sortedSemesters session = sort_key sem_order (semesters session)"

section \<open>Target solver across semesters (\<^verbatim>\<open>lib/statistics.ts\<close>)\<close>

text \<open>
  A message of the source is a template string; the model keeps which template it is
  and the numbers it prints (each printed with \<^verbatim>\<open>toFixed(2)\<close>).
\<close>

datatype TargetMessage =
    NotAchievable real real
  | TargetAlreadyAchieved real
  | VeryChallenging real
  | AchievableWithEffort real
  | EasilyAchievable real

record TargetCalculation =
  targetCGPA :: real
  currentCGPA :: real
  creditsCompleted :: real
  creditsRemaining :: real
  requiredGPA :: real
  feasible :: bool
  message :: TargetMessage

definition calculateTargetGPA :: "Session \<Rightarrow> real \<Rightarrow> real \<Rightarrow> error + TargetCalculation" where
  "calculateTargetGPA session target remaining =
     bindE (calculateCGPA (semesters session)) (\<lambda>cg.
       (let current = or_zero cg;
            completed = foldl (\<lambda>acc semester. acc + getSemesterCredits semester) 0 (semesters session)
        in bindE (if remaining > 0
                  then js_div (target * (completed + remaining) - current * completed) remaining
                  else Inr 0) (\<lambda>required.
             (let maxPossible = (if scale (metadata session) = 0 then 10 else scale (metadata session));
                  feasible' = (required \<le> maxPossible \<and> required \<ge> 0);
                  message' =
                    (if \<not> feasible' then
                       (if required > maxPossible then NotAchievable required maxPossible
                        else TargetAlreadyAchieved current)
                     else if required \<ge> maxPossible * 0.9 then VeryChallenging required
                     else if required \<ge> maxPossible * 0.7 then AchievableWithEffort required
                     else EasilyAchievable required)
              in Inr \<lparr>targetCGPA = target,
                      currentCGPA = or_zero (roundForDisplay (Some current)),
                      creditsCompleted = completed,
                      creditsRemaining = remaining,
                      requiredGPA = or_zero (roundForDisplay (Some required)),
                      feasible = feasible',
                      message = message'\<rparr>))))"

section \<open>Target solver inside a semester (\<^verbatim>\<open>lib/intrasemester.ts\<close>)\<close>

text \<open>
  \<open>ist_feasible\<close> and \<open>ist_message\<close> are \<^verbatim>\<open>IntraSemesterTarget.feasible\<close> and
  \<^verbatim>\<open>.message\<close>; \<open>rec_feasible\<close> is \<^verbatim>\<open>CourseRecommendation.feasible\<close>.
\<close>

datatype IntraMessage =
    AlreadyAchievedGPA real
  | AllCoursesGraded "real option"
  | IntraNotAchievable real real
  | IntraAlreadyExceeded
  | IntraVeryChallenging real
  | IntraAchievableGood real
  | IntraEasilyAchievable real

record CourseRecommendation =
  courseName :: string
  currentMarks :: "real option"
  marksNeeded :: real
  gradeNeeded :: string
  rec_feasible :: bool

record IntraSemesterTarget =
  currentSemesterGPA :: "real option"
  targetSemesterGPA :: real
  coursesWithMarks :: "Course list"
  coursesNeedingGrades :: "Course list"
  recommendations :: "CourseRecommendation list"
  ist_feasible :: bool
  ist_message :: IntraMessage

text \<open>
  \<^verbatim>\<open>avgGPANeeded\<close>, the grade point that every ungraded course has to reach, as the
  source computes it after the early return.
\<close>

definition avgGPANeeded :: "Semester \<Rightarrow> real \<Rightarrow> error + real" where
  "avgGPANeeded semester targetGPA =
     (let withMarks = filter (\<lambda>c. gradePoint c \<noteq> None) (courses semester);
          needingGrades = filter (\<lambda>c. gradePoint c = None) (courses semester);
          totalCredits' = foldl (\<lambda>sum c. sum + credits c) 0 (courses semester);
          remainingCredits = foldl (\<lambda>sum c. sum + credits c) 0 needingGrades;
          currentPoints =
            foldl (\<lambda>sum c. sum + or_zero (gradePoint c) * credits c) 0 withMarks;
          targetPoints = targetGPA * totalCredits';
          pointsNeeded = targetPoints - currentPoints
      in if remainingCredits > 0 then js_div pointsNeeded remainingCredits else Inr 0)"

text \<open>
  The \<^verbatim>\<open>for\<close> loop over the mappings of the template inside a recommendation: it does
  not stop at a match, so the last mapping that reaches \<open>requiredGP\<close> decides.
\<close>

fun needed_loop :: "GradeMapping list \<Rightarrow> real \<Rightarrow> real \<times> string \<Rightarrow> real \<times> string" where
  "needed_loop [] requiredGP acc = acc"
| "needed_loop (mapping # rest) requiredGP (marksNeeded', gradeNeeded') =
     (if mp_gradePoint mapping \<ge> requiredGP
      then needed_loop rest requiredGP (minMarks mapping, letterGrade mapping)
      else needed_loop rest requiredGP (marksNeeded', gradeNeeded'))"

definition recommend :: "real \<Rightarrow> real \<Rightarrow> Course \<Rightarrow> error + CourseRecommendation" where
  "recommend scl requiredGP course =
     (let template = (if scl = 10 then Some BIT_MESRA_10_POINT else None)
      in bindE
           (case template of
              None \<Rightarrow> Inr (0, ''N/A'')
            | Some t \<Rightarrow>
                (case needed_loop (mappings t) requiredGP (0, ''N/A'') of
                   (marksNeeded', gradeNeeded') \<Rightarrow>
                     (case mappings t of
                        [] \<Rightarrow> Inl TypeError
                      | first # _ \<Rightarrow>
                          if requiredGP > mp_gradePoint first
                          then Inr (100, letterGrade first @ ''+'')
                          else Inr (marksNeeded', gradeNeeded'))))
           (\<lambda>(marksNeeded', gradeNeeded').
              Inr \<lparr>courseName = name course,
                   currentMarks = marks course,
                   marksNeeded = js_round marksNeeded',
                   gradeNeeded = gradeNeeded',
                   rec_feasible = (marksNeeded' \<le> 100)\<rparr>))"

text \<open>\<^verbatim>\<open>Array.map\<close> with a callback that can fail: the first failure ends the run.\<close>

fun mapE :: "('a \<Rightarrow> error + 'b) \<Rightarrow> 'a list \<Rightarrow> error + 'b list" where
  "mapE f [] = Inr []"
| "mapE f (x # xs) =
     (case f x of
        Inl e \<Rightarrow> Inl e
      | Inr y \<Rightarrow> (case mapE f xs of Inl e \<Rightarrow> Inl e | Inr ys \<Rightarrow> Inr (y # ys)))"

definition calculateIntraSemesterTarget ::
  "Semester \<Rightarrow> real \<Rightarrow> real \<Rightarrow> error + IntraSemesterTarget" where
  "calculateIntraSemesterTarget semester targetGPA scl =
     (let withMarks = filter (\<lambda>c. gradePoint c \<noteq> None) (courses semester);
          needingGrades = filter (\<lambda>c. gradePoint c = None) (courses semester)
      in bindE (calculateGPA withMarks) (\<lambda>currentGPA.
           if length needingGrades = 0 then
             (let achieved = (case currentGPA of None \<Rightarrow> False | Some g \<Rightarrow> g \<ge> targetGPA)
              in Inr \<lparr>currentSemesterGPA = currentGPA,
                      targetSemesterGPA = targetGPA,
                      coursesWithMarks = withMarks,
                      coursesNeedingGrades = [],
                      recommendations = [],
                      ist_feasible = achieved,
                      ist_message =
                        (case currentGPA of
                           None \<Rightarrow> AllCoursesGraded None
                         | Some g \<Rightarrow>
                             if g \<ge> targetGPA then AlreadyAchievedGPA g
                             else AllCoursesGraded (Some g))\<rparr>)
           else
             bindE (avgGPANeeded semester targetGPA) (\<lambda>avg.
             bindE (mapE (recommend scl avg) needingGrades) (\<lambda>recs.
               (let feasible' = (avg \<le> scl \<and> avg \<ge> 0);
                    message' =
                      (if \<not> feasible' then
                         (if avg > scl then IntraNotAchievable avg scl else IntraAlreadyExceeded)
                       else if avg \<ge> scl * 0.9 then IntraVeryChallenging avg
                       else if avg \<ge> scl * 0.7 then IntraAchievableGood avg
                       else IntraEasilyAchievable avg)
                in Inr \<lparr>currentSemesterGPA = currentGPA,
                        targetSemesterGPA = targetGPA,
                        coursesWithMarks = withMarks,
                        coursesNeedingGrades = needingGrades,
                        recommendations = recs,
                        ist_feasible = feasible',
                        ist_message = message'\<rparr>)))))"

section \<open>The engine over a machine arithmetic\<close>

text \<open>
  An arithmetic gives the four operations as the machine performs them and the number
  that a decimal literal of the source denotes. Nothing is assumed of it: comparisons,
  \<^verbatim>\<open>Math.round\<close> and the integers written in the source are exact on a machine too.
  \<open>exact\<close> is the arithmetic of the real numbers; IEEE double arithmetic, which
  rounds every result to the nearest double, is another one as long as no operation
  overflows. The functions below are the functions of the sections above with every
  operation and every decimal literal taken from the arithmetic, in the order in which
  the source writes them.
\<close>

record arith =
  m_add :: "real \<Rightarrow> real \<Rightarrow> real"
  m_sub :: "real \<Rightarrow> real \<Rightarrow> real"
  m_mul :: "real \<Rightarrow> real \<Rightarrow> real"
  m_div :: "real \<Rightarrow> real \<Rightarrow> real"
  m_lit :: "real \<Rightarrow> real"

definition exact :: arith where
  "exact = \<lparr>m_add = (+), m_sub = (-), m_mul = (*), m_div = (/), m_lit = (\<lambda>x. x)\<rparr>"

definition js_div_in :: "arith \<Rightarrow> real \<Rightarrow> real \<Rightarrow> error + real" where
  "js_div_in ar a b = (if b = 0 then Inl NonFinite else Inr (m_div ar a b))"

fun gpa_loop_in :: "arith \<Rightarrow> Course list \<Rightarrow> real \<times> real \<Rightarrow> real \<times> real" where
  "gpa_loop_in ar [] acc = acc"
| "gpa_loop_in ar (course # rest) (totalPoints', totalCredits') =
     (case gradePoint course of
        None \<Rightarrow> gpa_loop_in ar rest (totalPoints', totalCredits')
      | Some gp \<Rightarrow>
          if credits course = 0 then gpa_loop_in ar rest (totalPoints', totalCredits')
          else gpa_loop_in ar rest
                 (m_add ar totalPoints' (m_mul ar gp (credits course)),
                  m_add ar totalCredits' (credits course)))"

definition calculateGPA_in :: "arith \<Rightarrow> Course list \<Rightarrow> error + real option" where
  "calculateGPA_in ar cs =
     (case gpa_loop_in ar cs (0, 0) of (totalPoints', totalCredits') \<Rightarrow>
        if totalCredits' = 0 then Inr None
        else bindE (js_div_in ar totalPoints' totalCredits') (\<lambda>q. Inr (Some q)))"






definition avgGPANeeded_in :: "arith \<Rightarrow> Semester \<Rightarrow> real \<Rightarrow> error + real" where
  "avgGPANeeded_in ar semester targetGPA =
     (let withMarks = filter (\<lambda>c. gradePoint c \<noteq> None) (courses semester);
          needingGrades = filter (\<lambda>c. gradePoint c = None) (courses semester);
          totalCredits' = foldl (\<lambda>sum c. m_add ar sum (credits c)) 0 (courses semester);
          remainingCredits = foldl (\<lambda>sum c. m_add ar sum (credits c)) 0 needingGrades;
          currentPoints =
            foldl (\<lambda>sum c. m_add ar sum (m_mul ar (or_zero (gradePoint c)) (credits c))) 0
              withMarks;
          targetPoints = m_mul ar targetGPA totalCredits';
          pointsNeeded = m_sub ar targetPoints currentPoints
      in if remainingCredits > 0 then js_div_in ar pointsNeeded remainingCredits else Inr 0)"

definition calculateIntraSemesterTarget_in ::
  "arith \<Rightarrow> Semester \<Rightarrow> real \<Rightarrow> real \<Rightarrow> error + IntraSemesterTarget" where
  "calculateIntraSemesterTarget_in ar semester targetGPA scl =
     (let withMarks = filter (\<lambda>c. gradePoint c \<noteq> None) (courses semester);
          needingGrades = filter (\<lambda>c. gradePoint c = None) (courses semester)
      in bindE (calculateGPA_in ar withMarks) (\<lambda>currentGPA.
           if length needingGrades = 0 then
             (let achieved = (case currentGPA of None \<Rightarrow> False | Some g \<Rightarrow> g \<ge> targetGPA)
              in Inr \<lparr>currentSemesterGPA = currentGPA,
                      targetSemesterGPA = targetGPA,
                      coursesWithMarks = withMarks,
                      coursesNeedingGrades = [],
                      recommendations = [],
                      ist_feasible = achieved,
                      ist_message =
                        (case currentGPA of
                           None \<Rightarrow> AllCoursesGraded None
                         | Some g \<Rightarrow>
                             if g \<ge> targetGPA then AlreadyAchievedGPA g
                             else AllCoursesGraded (Some g))\<rparr>)
           else
             bindE (avgGPANeeded_in ar semester targetGPA) (\<lambda>avg.
             bindE (mapE (recommend scl avg) needingGrades) (\<lambda>recs.
               (let feasible' = (avg \<le> scl \<and> avg \<ge> 0);
                    message' =
                      (if \<not> feasible' then
                         (if avg > scl then IntraNotAchievable avg scl else IntraAlreadyExceeded)
                       else if avg \<ge> m_mul ar scl (m_lit ar 0.9) then IntraVeryChallenging avg
                       else if avg \<ge> m_mul ar scl (m_lit ar 0.7) then IntraAchievableGood avg
                       else IntraEasilyAchievable avg)
                in Inr \<lparr>currentSemesterGPA = currentGPA,
                        targetSemesterGPA = targetGPA,
                        coursesWithMarks = withMarks,
                        coursesNeedingGrades = needingGrades,
                        recommendations = recs,
                        ist_feasible = feasible',
                        ist_message = message'\<rparr>)))))"

section \<open>Grade distribution for the charts (\<^verbatim>\<open>lib/chartData.ts\<close>)\<close>

text \<open>
  A \<^verbatim>\<open>ChartDataPoint\<close> of \<^verbatim>\<open>getGradeDistribution\<close> has the fields \<^verbatim>\<open>name\<close>,
  \<^verbatim>\<open>value\<close> and \<^verbatim>\<open>count\<close>. \<^verbatim>\<open>filter(s => s.manualGPA)\<close> keeps a manual GPA that is
  present and not zero.

  \<open>sort_by_value\<close> is \<^verbatim>\<open>sort((a, b) => b.value - a.value)\<close>. On numbers the comparator
  is a consistent ordering and the sort is stable and descending. A difference with a
  string operand is \<^verbatim>\<open>NaN\<close>, which the sort reads as 0: when a string is among the
  values, the comparator is consistent only if all numbers among them are equal, and
  the stable sort then leaves the list as it is.
\<close>

record ChartDataPoint =
  cd_name :: string
  cd_value :: jsval
  cd_count :: jsval

definition sort_by_value :: "ChartDataPoint list \<Rightarrow> error + ChartDataPoint list" where
  "sort_by_value ps =
     (if list_all (\<lambda>p. case cd_value p of Num _ \<Rightarrow> True | Str _ \<Rightarrow> False) ps
      then Inr (sort_key (\<lambda>p. case cd_value p of Num n \<Rightarrow> - int n | Str _ \<Rightarrow> 0) ps)
      else if length (remdups (concat (map (\<lambda>p. case cd_value p of Num n \<Rightarrow> [n] | Str _ \<Rightarrow> []) ps))) \<le> 1
      then Inr ps
      else Inl UnspecifiedOrder)"

definition getGradeDistribution :: "Session \<Rightarrow> error + ChartDataPoint list" where
  "getGradeDistribution session =
     (let distribution =
            foldl (\<lambda>d semester. count_grades (courses semester) d) [] (semesters session);
          hasManualEntries = list_ex (\<lambda>s. manualGPA s \<noteq> None) (semesters session)
      in if length distribution = 0 \<and> hasManualEntries
         then Inr [\<lparr>cd_name = ''Manual Entry'', cd_value = Num 1,
                    cd_count = Num (length (filter (\<lambda>s. or_zero (manualGPA s) \<noteq> 0) (semesters session)))\<rparr>]
         else sort_by_value
                (map (\<lambda>(g, v). \<lparr>cd_name = g, cd_value = v, cd_count = v\<rparr>) distribution))"

section \<open>Vocabulary of the specification\<close>

text \<open>
  \<open>counted\<close> are the courses that the loop of \<^verbatim>\<open>calculateGPA\<close> does not skip;
  \<open>qualifying\<close> are the courses that the specification counts: a grade point is
  present and the credits are positive. \<open>points_of\<close> and \<open>credits_of\<close> are the two sums
  of a credit-weighted average.
\<close>

definition counted :: "Course list \<Rightarrow> Course list" where
  "counted cs = filter (\<lambda>c. gradePoint c \<noteq> None \<and> credits c \<noteq> 0) cs"

definition qualifying :: "Course list \<Rightarrow> Course list" where
  "qualifying cs = filter (\<lambda>c. gradePoint c \<noteq> None \<and> credits c > 0) cs"

definition points_of :: "Course list \<Rightarrow> real" where
  "points_of cs = (\<Sum>c\<leftarrow>cs. the (gradePoint c) * credits c)"

definition credits_of :: "Course list \<Rightarrow> real" where
  "credits_of cs = (\<Sum>c\<leftarrow>cs. credits c)"

text \<open>Courses and semesters for the concrete runs below.\<close>

definition mkCourse :: "string \<Rightarrow> real \<Rightarrow> real option \<Rightarrow> Course" where
  "mkCourse nm cr gp =
     \<lparr>code = None, name = nm, credits = cr, gradeType = gt_letter, grade = None,
      marks = None, gradePoint = gp\<rparr>"

definition courseSemester :: "real \<Rightarrow> Course list \<Rightarrow> Semester" where
  "courseSemester ord cs =
     \<lparr>sem_id = ''sem'', sem_name = ''Semester'', courses = cs, sem_gpa = None,
      sem_order = ord, manualGPA = None, manualCredits = None\<rparr>"

definition manualSemester :: "real \<Rightarrow> real option \<Rightarrow> real option \<Rightarrow> Semester" where
  "manualSemester ord g c =
     \<lparr>sem_id = ''sem'', sem_name = ''Semester'', courses = [], sem_gpa = None,
      sem_order = ord, manualGPA = g, manualCredits = c\<rparr>"

text \<open>
  \<open>gpa_spec\<close> is the GPA of a course list in the words of the specification: the
  credit-weighted average over the qualifying courses, and \<^verbatim>\<open>null\<close> when no course
  qualifies. \<open>refund_courses\<close> is a course list with a negative credit entry.
\<close>

definition gpa_spec :: "Course list \<Rightarrow> real option" where
  "gpa_spec cs =
     (if qualifying cs = [] then None
      else Some (points_of (qualifying cs) / credits_of (qualifying cs)))"

definition refund_courses :: "Course list" where
  "refund_courses = [mkCourse ''a'' 4 (Some 8), mkCourse ''b'' (- 2) (Some 6)]"

text \<open>
  \<open>effectiveGPA\<close> is the \<^verbatim>\<open>gpa\<close> that \<^verbatim>\<open>getSemesterGPA\<close> returns. \<open>cgpa_spec\<close> is the
  cumulative average in the words of the specification: over the semesters with a
  defined effective GPA and non-zero effective credits (\<^verbatim>\<open>getSemesterCredits\<close>), the
  sum of GPA times credits divided by the sum of credits.

  \<open>cgpa_graded\<close> differs in the weight of a semester: \<open>gradedCredits\<close> is the credit
  total of the courses that count towards the GPA (for a semester without courses, its
  manual credits), and a semester takes part when that weight is positive.
  \<open>sem_points\<close> and \<open>sem_weight\<close> are what one round of the loop of \<^verbatim>\<open>calculateCGPA\<close>
  adds to its two accumulators.
\<close>

definition effectiveGPA :: "Semester \<Rightarrow> real option" where
  "effectiveGPA s = (case getSemesterGPA s of Inl _ \<Rightarrow> None | Inr r \<Rightarrow> gpa r)"

definition cgpa_spec :: "Semester list \<Rightarrow> real option" where
  "cgpa_spec sems =
     (let q = filter (\<lambda>s. effectiveGPA s \<noteq> None \<and> getSemesterCredits s \<noteq> 0) sems
      in if q = [] then None
         else Some ((\<Sum>s\<leftarrow>q. the (effectiveGPA s) * getSemesterCredits s)
                    / (\<Sum>s\<leftarrow>q. getSemesterCredits s)))"

definition gradedCredits :: "Semester \<Rightarrow> real" where
  "gradedCredits s =
     (if courses s \<noteq> [] then credits_of (counted (courses s))
      else (case manualCredits s of Some mc \<Rightarrow> mc | None \<Rightarrow> 0))"

definition graded_semesters :: "Semester list \<Rightarrow> Semester list" where
  "graded_semesters sems = filter (\<lambda>s. effectiveGPA s \<noteq> None \<and> gradedCredits s > 0) sems"

definition cgpa_graded :: "Semester list \<Rightarrow> real option" where
  "cgpa_graded sems =
     (if graded_semesters sems = [] then None
      else Some ((\<Sum>s\<leftarrow>graded_semesters sems. the (effectiveGPA s) * gradedCredits s)
                 / (\<Sum>s\<leftarrow>graded_semesters sems. gradedCredits s)))"

definition sem_points :: "Semester \<Rightarrow> real" where
  "sem_points s = fst (cgpa_loop [s] (0, 0))"

definition sem_weight :: "Semester \<Rightarrow> real" where
  "sem_weight s = snd (cgpa_loop [s] (0, 0))"

definition cgpa_example :: "Semester list" where
  "cgpa_example =
     [courseSemester 0 [mkCourse ''a'' 4 (Some 8), mkCourse ''b'' 4 None],
      courseSemester 1 [mkCourse ''c'' 4 (Some 6)]]"

definition cgpa_manual_example :: "Semester list" where
  "cgpa_manual_example =
     [courseSemester 0 [mkCourse ''a'' 20 (Some 8)], manualSemester 1 (Some 7) (Some 18)]"

text \<open>
  The closed form of the target solver in the words of the specification:
  \<open>currentCGPA_of\<close> is the CGPA of the session (0 when it is \<^verbatim>\<open>null\<close>),
  \<open>creditsCompleted_of\<close> the sum of the effective credits of all semesters, and
  \<open>scaleMax\<close> the scale of the session (\<^verbatim>\<open>session.metadata.scale || 10\<close>).
\<close>

definition currentCGPA_of :: "Session \<Rightarrow> real" where
  "currentCGPA_of session =
     (case calculateCGPA (semesters session) of Inr (Some v) \<Rightarrow> v | _ \<Rightarrow> 0)"

definition creditsCompleted_of :: "Session \<Rightarrow> real" where
  "creditsCompleted_of session = (\<Sum>s\<leftarrow>semesters session. getSemesterCredits s)"

definition closed_form :: "Session \<Rightarrow> real \<Rightarrow> real \<Rightarrow> real" where
  "closed_form session target remaining =
     (target * (creditsCompleted_of session + remaining)
        - currentCGPA_of session * creditsCompleted_of session) / remaining"


definition mkSession :: "real \<Rightarrow> Semester list \<Rightarrow> Session" where
  "mkSession scl sems =
     \<lparr>semesters = sems, metadata = \<lparr>scale = scl, roundTo = 2, repeatPolicy = latest\<rparr>\<rparr>"

definition target_scenario :: Session where
  "target_scenario = mkSession 10 [manualSemester 0 (Some 7.5) (Some 60)]"



text \<open>
  \<open>bucket_of\<close> is the first mapping, in declaration order, whose interval
  \<^verbatim>\<open>[minMarks, maxMarks]\<close> holds the marks. \<open>roundtrip\<close> is
  \<^verbatim>\<open>convertGradeToPoints(convertMarksToGrade(m, T), T.scale, T)\<close>.
\<close>

definition bucket_of :: "real \<Rightarrow> GradeTemplate \<Rightarrow> GradeMapping option" where
  "bucket_of m T = find (\<lambda>mp. minMarks mp \<le> m \<and> m \<le> maxMarks mp) (mappings T)"

definition roundtrip :: "real \<Rightarrow> GradeTemplate \<Rightarrow> error + real" where
  "roundtrip m T =
     map_sum id (\<lambda>g. convertGradeToPoints g (tpl_scale T) (Some T)) (convertMarksToGrade m T)"

text \<open>
  A session whose semester list is not in the order of the \<^verbatim>\<open>order\<close> fields (as a
  JSON import can produce), and the same session with the list in chronological order.
\<close>

definition trend_session :: Session where
  "trend_session =
     mkSession 10
       [courseSemester 1 [mkCourse ''late'' 4 (Some 8)],
        courseSemester 0 [mkCourse ''early'' 4 (Some 6)]]"

definition chronological :: "Session \<Rightarrow> Session" where
  "chronological session = session\<lparr>semesters := sortedSemesters session\<rparr>"

text \<open>
  The vocabulary of the target solver inside a semester. \<open>requiredAvgGP\<close> is the
  formula of the specification; \<open>required_gp\<close> is that formula under the guard of the
  source, 0 when the ungraded courses carry no credits. \<open>needed_pair\<close> and
  \<open>recommendation_for\<close> describe the recommendation that the source builds for one
  course from a required grade point.

  \<open>min_marks_mapping T r mp\<close> says that \<open>mp\<close> is a mapping of \<open>T\<close> that reaches the grade
  point \<open>r\<close> with the fewest marks. \<open>claimed_recommendation T r rec\<close> is the
  recommendation in the words of the specification: marks and letter of such a mapping,
  or 100 marks and the first mapping's letter followed by \<^verbatim>\<open>+\<close> when \<open>r\<close> is above the
  first mapping's grade point, and feasible exactly when the marks are at most 100.
\<close>

definition graded :: "Semester \<Rightarrow> Course list" where
  "graded semester = filter (\<lambda>c. gradePoint c \<noteq> None) (courses semester)"

definition ungraded :: "Semester \<Rightarrow> Course list" where
  "ungraded semester = filter (\<lambda>c. gradePoint c = None) (courses semester)"

definition remainingCredits_of :: "Semester \<Rightarrow> real" where
  "remainingCredits_of semester = credits_of (ungraded semester)"

definition requiredAvgGP :: "Semester \<Rightarrow> real \<Rightarrow> real" where
  "requiredAvgGP semester targetGPA =
     (targetGPA * credits_of (courses semester) - points_of (graded semester))
       / remainingCredits_of semester"

definition required_gp :: "Semester \<Rightarrow> real \<Rightarrow> real" where
  "required_gp semester targetGPA =
     (if remainingCredits_of semester > 0 then requiredAvgGP semester targetGPA else 0)"

definition needed_pair :: "real \<Rightarrow> real \<Rightarrow> real \<times> string" where
  "needed_pair scl r =
     (if scl = 10 then
        (if r > 10 then (100, ''A+/O+'')
         else needed_loop (mappings BIT_MESRA_10_POINT) r (0, ''N/A''))
      else (0, ''N/A''))"

definition recommendation_for :: "real \<Rightarrow> real \<Rightarrow> Course \<Rightarrow> CourseRecommendation" where
  "recommendation_for scl r course =
     \<lparr>courseName = name course, currentMarks = marks course,
      marksNeeded = js_round (fst (needed_pair scl r)), gradeNeeded = snd (needed_pair scl r),
      rec_feasible = (fst (needed_pair scl r) \<le> 100)\<rparr>"

definition min_marks_mapping :: "GradeTemplate \<Rightarrow> real \<Rightarrow> GradeMapping \<Rightarrow> bool" where
  "min_marks_mapping T r mp \<longleftrightarrow>
     list_ex (\<lambda>x. x = mp) (mappings T) \<and> r \<le> mp_gradePoint mp
     \<and> list_all (\<lambda>mp'. r \<le> mp_gradePoint mp' \<longrightarrow> minMarks mp \<le> minMarks mp') (mappings T)"

definition claimed_recommendation :: "GradeTemplate \<Rightarrow> real \<Rightarrow> CourseRecommendation \<Rightarrow> bool" where
  "claimed_recommendation T r rec \<longleftrightarrow>
     (if r > mp_gradePoint (hd (mappings T))
      then marksNeeded rec = 100 \<and> gradeNeeded rec = letterGrade (hd (mappings T)) @ ''+''
      else list_ex (\<lambda>mp. min_marks_mapping T r mp \<and> marksNeeded rec = minMarks mp
                          \<and> gradeNeeded rec = letterGrade mp) (mappings T))
     \<and> rec_feasible rec = (marksNeeded rec \<le> 100)"

definition zero_credit_semester :: Semester where
  "zero_credit_semester =
     courseSemester 0 [mkCourse ''graded'' 4 (Some 8), mkCourse ''seminar'' 0 None]"

definition open_semester :: Semester where
  "open_semester = courseSemester 0 [mkCourse ''graded'' 4 (Some 9), mkCourse ''open'' 4 None]"

definition four_point_semester :: Semester where
  "four_point_semester = courseSemester 0 [mkCourse ''open'' 3 None]"

text \<open>
  \<open>letter_grades\<close> lists the letter grades of the courses of a session, in order: a
  grade counts when it is present and not the empty string. \<open>counts_exactly d gs\<close> says
  that the association list \<open>d\<close> has one entry per distinct element of \<open>gs\<close>, holding the
  number of its occurrences.
\<close>

definition grades_of :: "Course list \<Rightarrow> string list" where
  "grades_of cs =
     concat (map (\<lambda>c. case grade c of None \<Rightarrow> [] | Some g \<Rightarrow> if g \<noteq> [] then [g] else []) cs)"

definition letter_grades :: "Session \<Rightarrow> string list" where
  "letter_grades session = concat (map (\<lambda>s. grades_of (courses s)) (semesters session))"

definition counts_exactly :: "(string \<times> jsval) list \<Rightarrow> string list \<Rightarrow> bool" where
  "counts_exactly d gs \<longleftrightarrow>
     distinct (map fst d)
     \<and> (\<forall>k. map_of d k = (if k \<in> set gs then Some (Num (count_list gs k)) else None))"

definition mkGraded :: "string \<Rightarrow> string \<Rightarrow> Course" where
  "mkGraded nm g =
     \<lparr>code = None, name = nm, credits = 4, gradeType = gt_letter, grade = Some g,
      marks = None, gradePoint = None\<rparr>"

definition manual_only_session :: Session where
  "manual_only_session =
     mkSession 10 [manualSemester 0 (Some 8) (Some 20), manualSemester 1 (Some 0) (Some 20),
                   courseSemester 2 [mkCourse ''a'' 4 (Some 9)]]"

definition letters_session :: Session where
  "letters_session =
     mkSession 10 [courseSemester 0 [mkGraded ''a'' ''B'', mkGraded ''b'' ''A'', mkGraded ''c'' ''''],
                   manualSemester 1 (Some 8) (Some 20),
                   courseSemester 2 [mkGraded ''d'' ''A'', mkCourse ''e'' 4 (Some 9)]]"

text \<open>A session in which one course has the letter grade \<^verbatim>\<open>constructor\<close>.\<close>

definition constructor_session :: Session where
  "constructor_session =
     mkSession 10 [courseSemester 0 [mkGraded ''a'' ''A'', mkGraded ''b'' ''constructor'']]"

text \<open>
  The vocabulary of the two target solvers over an arithmetic. \<open>sum_in\<close> is a sum taken
  from left to right, starting at 0. \<open>closed_form_in\<close> is the closed form of the
  solver across semesters and \<open>requiredAvgGP_in\<close> the formula of the solver inside a
  semester, each with its operations performed by the arithmetic; \<open>required_gp_in\<close> is
  the latter under the guard of the source.
\<close>

definition sum_in :: "arith \<Rightarrow> ('a \<Rightarrow> real) \<Rightarrow> 'a list \<Rightarrow> real" where
  "sum_in ar f xs = foldl (\<lambda>sum x. m_add ar sum (f x)) 0 xs"




definition remainingCredits_in :: "arith \<Rightarrow> Semester \<Rightarrow> real" where
  "remainingCredits_in ar semester = sum_in ar credits (ungraded semester)"

definition requiredAvgGP_in :: "arith \<Rightarrow> Semester \<Rightarrow> real \<Rightarrow> real" where
  "requiredAvgGP_in ar semester targetGPA =
     m_div ar
       (m_sub ar (m_mul ar targetGPA (sum_in ar credits (courses semester)))
                 (sum_in ar (\<lambda>c. m_mul ar (the (gradePoint c)) (credits c)) (graded semester)))
       (remainingCredits_in ar semester)"

definition required_gp_in :: "arith \<Rightarrow> Semester \<Rightarrow> real \<Rightarrow> real" where
  "required_gp_in ar semester targetGPA =
     (if remainingCredits_in ar semester > 0 then requiredAvgGP_in ar semester targetGPA else 0)"

section \<open>The GPA of a course list\<close>

lemma gpa_loop_counted:
  "gpa_loop cs (p, t) = (p + points_of (counted cs), t + credits_of (counted cs))"
  by (induction cs arbitrary: p t)
     (auto simp: counted_def points_of_def credits_of_def split: option.splits)

lemma calculateGPA_value:
  "calculateGPA cs =
     Inr (if credits_of (counted cs) = 0 then None
          else Some (points_of (counted cs) / credits_of (counted cs)))"
  by (simp add: calculateGPA_def gpa_loop_counted js_div_def bindE_def)

lemma counted_qualifying:
  assumes "\<forall>c\<in>set cs. 0 \<le> credits c"
  shows "counted cs = qualifying cs"
  unfolding qualifying_def counted_def using assms by (intro filter_cong) auto

lemma credits_of_positive:
  assumes "\<forall>c\<in>set cs. 0 < credits c"
  shows "credits_of cs = 0 \<longleftrightarrow> cs = []"
  using assms unfolding credits_of_def
proof (induction cs)
  case Nil
  then show ?case by simp
next
  case (Cons a cs)
  have "0 \<le> (\<Sum>c\<leftarrow>cs. credits c)"
    using Cons.prems by (intro sum_list_nonneg) auto
  with Cons.prems show ?case by auto
qed

text \<open>
  Claim C5, as amended. For a course list with no negative credits,
  \<^verbatim>\<open>calculateGPA\<close> is the credit-weighted average of the grade points over exactly
  the courses with a grade point and positive credits, and \<^verbatim>\<open>null\<close> when there is
  no such course. Whenever every course has zero credits or no grade point, the result
  is \<^verbatim>\<open>null\<close>, never 0.
\<close>

theorem calculateGPA_weighted_average:
  "((\<forall>c\<in>set cs. 0 \<le> credits c) \<longrightarrow>
      calculateGPA cs =
        Inr (if qualifying cs = [] then None
             else Some (points_of (qualifying cs) / credits_of (qualifying cs))))
   \<and> ((\<forall>c\<in>set cs. credits c = 0 \<or> gradePoint c = None) \<longrightarrow> calculateGPA cs = Inr None)"
proof (intro conjI impI)
  assume nn: "\<forall>c\<in>set cs. 0 \<le> credits c"
  have pos: "\<forall>c\<in>set (qualifying cs). 0 < credits c"
    by (simp add: qualifying_def)
  show "calculateGPA cs =
        Inr (if qualifying cs = [] then None
             else Some (points_of (qualifying cs) / credits_of (qualifying cs)))"
    by (simp add: calculateGPA_value counted_qualifying[OF nn] credits_of_positive[OF pos])
next
  assume "\<forall>c\<in>set cs. credits c = 0 \<or> gradePoint c = None"
  then have "counted cs = []"
    by (auto simp: counted_def filter_empty_conv)
  then show "calculateGPA cs = Inr None"
    by (simp add: calculateGPA_value credits_of_def)
qed

theorem calculateGPA_weighted_average_witness:
  "list_all (\<lambda>c. 0 \<le> credits c)
     [mkCourse ''a'' 4 (Some 9), mkCourse ''b'' 3 (Some 8), mkCourse ''c'' 0 (Some 10)]
   \<and> calculateGPA [mkCourse ''a'' 4 (Some 9), mkCourse ''b'' 3 (Some 8), mkCourse ''c'' 0 (Some 10)]
       = Inr (Some (60 / 7))
   \<and> list_all (\<lambda>c. credits c = 0 \<or> gradePoint c = None)
       [mkCourse ''a'' 0 (Some 9), mkCourse ''b'' 3 None]
   \<and> calculateGPA [mkCourse ''a'' 0 (Some 9), mkCourse ''b'' 3 None] = Inr None"
  using calculateGPA_weighted_average
          [of "[mkCourse ''a'' 4 (Some 9), mkCourse ''b'' 3 (Some 8), mkCourse ''c'' 0 (Some 10)]"]
        calculateGPA_weighted_average [of "[mkCourse ''a'' 0 (Some 9), mkCourse ''b'' 3 None]"]
  by (simp add: mkCourse_def qualifying_def points_of_def credits_of_def)

text \<open>
  Claim C5, as stated, fails on a course list with negative credits: the loop skips a
  course only when its credits are exactly 0, so a course of 4 credits with grade
  point 8 and a course of -2 credits with grade point 6 give (32 - 12) / (4 - 2) = 10,
  where the average over the courses with positive credits is 8.
\<close>

theorem calculateGPA_spec_counterexample:
  "calculateGPA refund_courses = Inr (Some 10)
   \<and> gpa_spec refund_courses = Some 8
   \<and> calculateGPA refund_courses \<noteq> Inr (gpa_spec refund_courses)"
  by (simp add: refund_courses_def mkCourse_def calculateGPA_def js_div_def bindE_def
        gpa_spec_def qualifying_def points_of_def credits_of_def)

text \<open>
  Claim C6. On a semester with courses, \<^verbatim>\<open>getSemesterGPA\<close> and
  \<^verbatim>\<open>getSemesterCredits\<close> do not read the manual fields: replacing \<^verbatim>\<open>manualGPA\<close> and
  \<^verbatim>\<open>manualCredits\<close> by any other values leaves both results unchanged.
\<close>

theorem manual_fields_never_blended:
  assumes "courses s \<noteq> []"
  shows "getSemesterGPA (s\<lparr>manualGPA := g, manualCredits := c\<rparr>) = getSemesterGPA s
       \<and> getSemesterCredits (s\<lparr>manualGPA := g, manualCredits := c\<rparr>) = getSemesterCredits s"
  using assms by (simp add: getSemesterGPA_def getSemesterCredits_def)

theorem manual_fields_never_blended_witness:
  "courses (courseSemester 0 [mkCourse ''a'' 4 (Some 9)]) \<noteq> []
   \<and> getSemesterGPA ((courseSemester 0 [mkCourse ''a'' 4 (Some 9)])\<lparr>manualGPA := Some 2, manualCredits := Some 30\<rparr>)
       = getSemesterGPA (courseSemester 0 [mkCourse ''a'' 4 (Some 9)])
   \<and> getSemesterCredits ((courseSemester 0 [mkCourse ''a'' 4 (Some 9)])\<lparr>manualGPA := Some 2, manualCredits := Some 30\<rparr>)
       = getSemesterCredits (courseSemester 0 [mkCourse ''a'' 4 (Some 9)])"
  using manual_fields_never_blended
          [where s = "courseSemester 0 [mkCourse ''a'' 4 (Some 9)]" and g = "Some 2" and c = "Some 30"]
  by (simp add: courseSemester_def)

section \<open>The cumulative GPA\<close>

lemma cgpa_loop_step:
  "cgpa_loop (s # rest) (p, t) = cgpa_loop rest (p + sem_points s, t + sem_weight s)"
  by (simp add: sem_points_def sem_weight_def gpa_loop_counted split: option.splits)

lemma cgpa_loop_sums:
  "cgpa_loop sems (p, t) = (p + (\<Sum>s\<leftarrow>sems. sem_points s), t + (\<Sum>s\<leftarrow>sems. sem_weight s))"
proof (induction sems arbitrary: p t)
  case Nil
  then show ?case by simp
next
  case (Cons s sems)
  show ?case
    unfolding cgpa_loop_step Cons.IH by (simp add: add.assoc)
qed

lemma calculateCGPA_value:
  "calculateCGPA sems =
     Inr (if (\<Sum>s\<leftarrow>sems. sem_weight s) = 0 then None
          else Some ((\<Sum>s\<leftarrow>sems. sem_points s) / (\<Sum>s\<leftarrow>sems. sem_weight s)))"
  by (simp add: calculateCGPA_def cgpa_loop_sums js_div_def bindE_def)

lemma effectiveGPA_value:
  "effectiveGPA s =
     (if courses s \<noteq> [] then
        (if credits_of (counted (courses s)) = 0 then None
         else Some (points_of (counted (courses s)) / credits_of (counted (courses s))))
      else manualGPA s)"
  by (simp add: effectiveGPA_def getSemesterGPA_def calculateGPA_value bindE_def
           split: option.splits)

lemma credits_of_nonneg:
  assumes "\<forall>c\<in>set cs. 0 \<le> credits c"
  shows "0 \<le> credits_of (counted cs)"
  unfolding credits_of_def using assms
  by (intro sum_list_nonneg) (auto simp: counted_def)

lemma points_of_zero:
  assumes "\<forall>c\<in>set cs. 0 \<le> credits c" and "credits_of (counted cs) = 0"
  shows "points_of (counted cs) = 0"
proof -
  have pos: "\<forall>c\<in>set (qualifying cs). 0 < credits c"
    by (simp add: qualifying_def)
  have "qualifying cs = []"
    using assms credits_of_positive[OF pos] by (simp add: counted_qualifying)
  then show ?thesis
    using assms(1) by (simp add: counted_qualifying points_of_def)
qed

lemma sem_weight_value:
  "sem_weight s =
     (if courses s \<noteq> [] then credits_of (counted (courses s))
      else (case manualGPA s of None \<Rightarrow> 0
            | Some g \<Rightarrow> (case manualCredits s of None \<Rightarrow> 0 | Some c \<Rightarrow> if c > 0 then c else 0)))"
  by (simp add: sem_weight_def gpa_loop_counted split: option.splits)

lemma sem_points_value:
  "sem_points s =
     (if courses s \<noteq> [] then points_of (counted (courses s))
      else (case manualGPA s of None \<Rightarrow> 0
            | Some g \<Rightarrow> (case manualCredits s of None \<Rightarrow> 0 | Some c \<Rightarrow> if c > 0 then g * c else 0)))"
  by (simp add: sem_points_def gpa_loop_counted split: option.splits)

lemma sem_weight_nonneg:
  assumes "\<forall>c\<in>set (courses s). 0 \<le> credits c"
  shows "0 \<le> sem_weight s"
  using credits_of_nonneg[OF assms] by (simp add: sem_weight_value split: option.splits)

lemma graded_iff_weight:
  assumes "\<forall>c\<in>set (courses s). 0 \<le> credits c"
  shows "(effectiveGPA s \<noteq> None \<and> gradedCredits s > 0) \<longleftrightarrow> sem_weight s > 0"
  using credits_of_nonneg[OF assms]
  by (auto simp: effectiveGPA_value gradedCredits_def sem_weight_value split: option.splits)

lemma graded_contribution:
  assumes "sem_weight s > 0"
  shows "the (effectiveGPA s) * gradedCredits s = sem_points s" and "gradedCredits s = sem_weight s"
  using assms
  by (auto simp: effectiveGPA_value gradedCredits_def sem_weight_value sem_points_value
           split: option.splits if_splits)

lemma ungraded_contribution:
  assumes "\<forall>c\<in>set (courses s). 0 \<le> credits c" and "\<not> sem_weight s > 0"
  shows "sem_points s = 0" and "sem_weight s = 0"
proof -
  show w: "sem_weight s = 0"
    using sem_weight_nonneg[OF assms(1)] assms(2) by simp
  show "sem_points s = 0"
    using w points_of_zero[OF assms(1)]
    by (auto simp: sem_weight_value sem_points_value split: option.splits if_splits)
qed

lemma sum_list_filter_zero:
  fixes f :: "'a \<Rightarrow> real"
  assumes "\<forall>x\<in>set xs. \<not> P x \<longrightarrow> f x = 0"
  shows "(\<Sum>x\<leftarrow>filter P xs. f x) = (\<Sum>x\<leftarrow>xs. f x)"
  using assms by (induction xs) auto

lemma sum_list_pos_zero_iff:
  fixes f :: "'a \<Rightarrow> real"
  assumes "\<forall>x\<in>set xs. 0 < f x"
  shows "(\<Sum>x\<leftarrow>xs. f x) = 0 \<longleftrightarrow> xs = []"
  using assms
proof (induction xs)
  case Nil
  then show ?case by simp
next
  case (Cons a xs)
  have "0 \<le> (\<Sum>x\<leftarrow>xs. f x)"
    using Cons.prems by (intro sum_list_nonneg) (auto intro: less_imp_le)
  with Cons.prems show ?case by auto
qed

text \<open>
  Claim C1, as amended. For semesters whose courses have no negative credits,
  \<^verbatim>\<open>calculateCGPA\<close> is the weighted average of the effective GPAs in which a semester
  weighs its graded credits (the credits of its courses with a grade point and non-zero
  credits, or its manual credits when it has no courses), over exactly the semesters
  with a defined effective GPA and a positive weight, and \<^verbatim>\<open>null\<close> when there is no
  such semester.
\<close>

theorem calculateCGPA_graded_average:
  assumes nn: "\<forall>s\<in>set sems. \<forall>c\<in>set (courses s). 0 \<le> credits c"
  shows "calculateCGPA sems = Inr (cgpa_graded sems)"
proof -
  let ?q = "graded_semesters sems"
  have q: "?q = filter (\<lambda>s. sem_weight s > 0) sems"
    unfolding graded_semesters_def using nn graded_iff_weight
    by (intro filter_cong) auto
  have w: "(\<Sum>s\<leftarrow>?q. gradedCredits s) = (\<Sum>s\<leftarrow>sems. sem_weight s)"
  proof -
    have "(\<Sum>s\<leftarrow>?q. gradedCredits s) = (\<Sum>s\<leftarrow>?q. sem_weight s)"
      unfolding q by (intro arg_cong[where f = sum_list] map_cong) (auto simp: graded_contribution)
    also have "\<dots> = (\<Sum>s\<leftarrow>sems. sem_weight s)"
      unfolding q using nn ungraded_contribution(2) by (intro sum_list_filter_zero) auto
    finally show ?thesis .
  qed
  have p: "(\<Sum>s\<leftarrow>?q. the (effectiveGPA s) * gradedCredits s) = (\<Sum>s\<leftarrow>sems. sem_points s)"
  proof -
    have "(\<Sum>s\<leftarrow>?q. the (effectiveGPA s) * gradedCredits s) = (\<Sum>s\<leftarrow>?q. sem_points s)"
      unfolding q by (intro arg_cong[where f = sum_list] map_cong) (auto simp: graded_contribution(1))
    also have "\<dots> = (\<Sum>s\<leftarrow>sems. sem_points s)"
      unfolding q using nn ungraded_contribution(1) by (intro sum_list_filter_zero) auto
    finally show ?thesis .
  qed
  have z: "(\<Sum>s\<leftarrow>sems. sem_weight s) = 0 \<longleftrightarrow> ?q = []"
  proof -
    have "(\<Sum>s\<leftarrow>?q. sem_weight s) = 0 \<longleftrightarrow> ?q = []"
      unfolding q by (intro sum_list_pos_zero_iff) auto
    moreover have "(\<Sum>s\<leftarrow>?q. sem_weight s) = (\<Sum>s\<leftarrow>sems. sem_weight s)"
      unfolding q using nn ungraded_contribution(2) by (intro sum_list_filter_zero) auto
    ultimately show ?thesis by simp
  qed
  show ?thesis
    unfolding calculateCGPA_value cgpa_graded_def p w using z by simp
qed


text \<open>
  Claim C1, as stated, fails: with the weight \<^verbatim>\<open>getSemesterCredits\<close>, which also counts
  the credits of ungraded courses, the formula gives 22/3 on a semester with a graded
  and an ungraded course of 4 credits each followed by a semester with one graded
  course, where \<^verbatim>\<open>calculateCGPA\<close> returns 7.
\<close>

theorem calculateCGPA_spec_counterexample:
  "calculateCGPA cgpa_example = Inr (Some 7)
   \<and> cgpa_spec cgpa_example = Some (22 / 3)
   \<and> calculateCGPA cgpa_example \<noteq> Inr (cgpa_spec cgpa_example)"
  by (simp add: cgpa_example_def courseSemester_def mkCourse_def calculateCGPA_def
        js_div_def bindE_def cgpa_spec_def effectiveGPA_def getSemesterGPA_def
        calculateGPA_def getSemesterCredits_def)

theorem calculateCGPA_graded_average_witness:
  "list_all (\<lambda>s. list_all (\<lambda>c. 0 \<le> credits c) (courses s)) cgpa_manual_example
   \<and> calculateCGPA cgpa_manual_example = Inr (Some (286 / 38))"
proof -
  have nn: "\<forall>s\<in>set cgpa_manual_example. \<forall>c\<in>set (courses s). 0 \<le> credits c"
    by (simp add: cgpa_manual_example_def courseSemester_def manualSemester_def mkCourse_def)
  have "cgpa_graded cgpa_manual_example = Some (286 / 38)"
    by (simp add: cgpa_manual_example_def courseSemester_def manualSemester_def mkCourse_def
          cgpa_graded_def graded_semesters_def effectiveGPA_value gradedCredits_def
          counted_def credits_of_def points_of_def)
  with calculateCGPA_graded_average[OF nn] nn show ?thesis
    by (simp add: list_all_iff)
qed

section \<open>The target solver across semesters\<close>

lemma foldl_add_sum_list:
  fixes f :: "'a \<Rightarrow> real"
  shows "foldl (\<lambda>acc x. acc + f x) a xs = a + (\<Sum>x\<leftarrow>xs. f x)"
  by (induction xs arbitrary: a) (simp_all add: add.assoc)

lemma calculateCGPA_total: "\<exists>v. calculateCGPA sems = Inr v"
  by (simp add: calculateCGPA_value)





section \<open>Marks, letters and points\<close>

lemma marks_loop_find:
  "marks_loop m ms = map_option letterGrade (find (\<lambda>mp. minMarks mp \<le> m \<and> m \<le> maxMarks mp) ms)"
  by (induction ms) auto

lemma find_distinct_key:
  assumes "distinct (map f xs)" and "x \<in> set xs"
  shows "find (\<lambda>y. f y = f x) xs = Some x"
  using assms by (induction xs) (auto simp: image_iff)

lemma find_Some_mem: "find P xs = Some x \<Longrightarrow> x \<in> set xs"
  by (induction xs) (auto split: if_splits)

lemma roundtrip_generic:
  assumes keys: "distinct (map (\<lambda>mp. toUpperCase (letterGrade mp)) (mappings T))"
    and trimmed: "\<forall>mp\<in>set (mappings T). trim (toUpperCase (letterGrade mp)) = toUpperCase (letterGrade mp)"
    and bucket: "bucket_of m T = Some mp"
  shows "convertMarksToGrade m T = Inr (letterGrade mp)"
    and "convertGradeToPoints (letterGrade mp) scl (Some T) = mp_gradePoint mp"
proof -
  have mem: "mp \<in> set (mappings T)"
    using bucket by (auto simp: bucket_of_def dest: find_Some_mem)
  show "convertMarksToGrade m T = Inr (letterGrade mp)"
    using bucket by (simp add: convertMarksToGrade_def marks_loop_find bucket_of_def)
  have "find (\<lambda>y. toUpperCase (letterGrade y) = toUpperCase (letterGrade mp)) (mappings T) = Some mp"
    using find_distinct_key[OF keys mem] by simp
  then show "convertGradeToPoints (letterGrade mp) scl (Some T) = mp_gradePoint mp"
    using trimmed mem by (simp add: convertGradeToPoints_def)
qed

lemma upper_char_simps:
  "upper_char c = (if 97 \<le> (of_char c :: nat) \<and> (of_char c :: nat) \<le> 122 then char_of ((of_char c :: nat) - 32) else c)"
  by (simp add: upper_char_def Let_def)

lemma builtin_keys:
  "distinct (map (\<lambda>mp. toUpperCase (letterGrade mp)) (mappings BIT_MESRA_10_POINT))"
  "distinct (map (\<lambda>mp. toUpperCase (letterGrade mp)) (mappings STANDARD_4_POINT))"
  by (simp_all add: BIT_MESRA_10_POINT_def STANDARD_4_POINT_def toUpperCase_def upper_char_simps)

lemma builtin_trimmed:
  "\<forall>mp\<in>set (mappings BIT_MESRA_10_POINT). trim (toUpperCase (letterGrade mp)) = toUpperCase (letterGrade mp)"
  "\<forall>mp\<in>set (mappings STANDARD_4_POINT). trim (toUpperCase (letterGrade mp)) = toUpperCase (letterGrade mp)"
  by (simp_all add: BIT_MESRA_10_POINT_def STANDARD_4_POINT_def toUpperCase_def upper_char_simps
        trim_def is_space_def)

text \<open>
  Claim C7. For the 10-point and the 4-point template, and for marks that lie in the
  interval of some mapping, converting the marks to a letter grade and the letter grade
  back to points gives the grade point of the first mapping whose interval holds the
  marks.
\<close>

theorem builtin_roundtrip:
  assumes "T = BIT_MESRA_10_POINT \<or> T = STANDARD_4_POINT"
    and "bucket_of m T = Some mp"
  shows "roundtrip m T = Inr (mp_gradePoint mp)"
proof -
  have keys: "distinct (map (\<lambda>mp. toUpperCase (letterGrade mp)) (mappings T))"
    using assms(1) builtin_keys by auto
  have trimmed: "\<forall>mp\<in>set (mappings T).
      trim (toUpperCase (letterGrade mp)) = toUpperCase (letterGrade mp)"
    using assms(1) builtin_trimmed by auto
  show ?thesis
    using roundtrip_generic[OF keys trimmed assms(2)] by (simp add: roundtrip_def)
qed

theorem builtin_roundtrip_witness:
  "bucket_of 85.5 BIT_MESRA_10_POINT
     = Some \<lparr>minMarks = 81, maxMarks = 90, letterGrade = ''A'', mp_gradePoint = 9\<rparr>
   \<and> roundtrip 85.5 BIT_MESRA_10_POINT = Inr 9
   \<and> bucket_of 91 STANDARD_4_POINT
     = Some \<lparr>minMarks = 90, maxMarks = 92, letterGrade = ''A'', mp_gradePoint = 4\<rparr>
   \<and> roundtrip 91 STANDARD_4_POINT = Inr 4"
proof -
  have b1: "bucket_of 85.5 BIT_MESRA_10_POINT
     = Some \<lparr>minMarks = 81, maxMarks = 90, letterGrade = ''A'', mp_gradePoint = 9\<rparr>"
    by (simp add: bucket_of_def BIT_MESRA_10_POINT_def)
  have b2: "bucket_of 91 STANDARD_4_POINT
     = Some \<lparr>minMarks = 90, maxMarks = 92, letterGrade = ''A'', mp_gradePoint = 4\<rparr>"
    by (simp add: bucket_of_def STANDARD_4_POINT_def)
  show ?thesis
    using builtin_roundtrip[OF _ b1] builtin_roundtrip[OF _ b2] b1 b2 by simp
qed

section \<open>The trend of the statistics\<close>

text \<open>
  Claim C3 at a failing input. \<^verbatim>\<open>calculateStatistics\<close> reads the semesters in list
  order and never sorts them by \<^verbatim>\<open>order\<close>: for a session that lists the semester of
  order 1 (GPA 8) before the semester of order 0 (GPA 6) the trend is declining, and
  for the same semesters listed chronologically it is improving.
\<close>

theorem trend_uses_list_position:
  "map_sum id trendDirection (calculateStatistics trend_session) = Inr declining
   \<and> semesters (chronological trend_session)
       = [courseSemester 0 [mkCourse ''early'' 4 (Some 6)],
          courseSemester 1 [mkCourse ''late'' 4 (Some 8)]]
   \<and> map_sum id trendDirection (calculateStatistics (chronological trend_session)) = Inr improving"
  by (simp add: trend_session_def chronological_def sortedSemesters_def mkSession_def
        courseSemester_def mkCourse_def calculateStatistics_def getSemesterGPA_def
        calculateGPA_def getSemesterCredits_def bindE_def trend_of_def js_div_def Let_def)

section \<open>The target solver inside a semester\<close>

lemma foldl_credits: "foldl (\<lambda>sum c. sum + credits c) 0 cs = credits_of cs"
  by (simp add: foldl_add_sum_list credits_of_def)

lemma foldl_points:
  assumes "\<forall>c\<in>set cs. gradePoint c \<noteq> None"
  shows "foldl (\<lambda>sum c. sum + or_zero (gradePoint c) * credits c) 0 cs = points_of cs"
proof -
  have "(\<Sum>c\<leftarrow>cs. or_zero (gradePoint c) * credits c) = (\<Sum>c\<leftarrow>cs. the (gradePoint c) * credits c)"
    using assms by (intro arg_cong[where f = sum_list] map_cong) (auto simp: or_zero_def)
  then show ?thesis
    by (simp add: foldl_add_sum_list points_of_def)
qed

lemma avgGPANeeded_value: "avgGPANeeded semester targetGPA = Inr (required_gp semester targetGPA)"
proof -
  have pts: "foldl (\<lambda>sum c. sum + or_zero (gradePoint c) * credits c) 0 (graded semester)
               = points_of (graded semester)"
    by (intro foldl_points) (simp add: graded_def)
  show ?thesis
    using pts
    by (simp add: avgGPANeeded_def Let_def foldl_credits js_div_def required_gp_def
          requiredAvgGP_def remainingCredits_of_def ungraded_def graded_def)
qed

lemma recommend_value: "recommend scl r course = Inr (recommendation_for scl r course)"
  by (simp add: recommend_def recommendation_for_def needed_pair_def bindE_def
        BIT_MESRA_10_POINT_def Let_def split: prod.splits)

lemma mapE_Inr:
  assumes "\<forall>x\<in>set xs. f x = Inr (g x)"
  shows "mapE f xs = Inr (map g xs)"
  using assms by (induction xs) auto

lemma calculateGPA_total: "\<exists>v. calculateGPA cs = Inr v"
  by (simp add: calculateGPA_value)

lemma intra_value:
  assumes "ungraded semester \<noteq> []"
  shows "\<exists>res. calculateIntraSemesterTarget semester targetGPA scl = Inr res
           \<and> recommendations res
               = map (recommendation_for scl (required_gp semester targetGPA)) (ungraded semester)
           \<and> ist_feasible res
               = (required_gp semester targetGPA \<le> scl \<and> required_gp semester targetGPA \<ge> 0)
           \<and> ist_message res
               = (let avg = required_gp semester targetGPA in
                  if \<not> (avg \<le> scl \<and> avg \<ge> 0) then
                    (if avg > scl then IntraNotAchievable avg scl else IntraAlreadyExceeded)
                  else if avg \<ge> scl * 0.9 then IntraVeryChallenging avg
                  else if avg \<ge> scl * 0.7 then IntraAchievableGood avg
                  else IntraEasilyAchievable avg)"
proof -
  obtain v where v: "calculateGPA (filter (\<lambda>c. gradePoint c \<noteq> None) (courses semester)) = Inr v"
    using calculateGPA_total by blast
  have m: "mapE (recommend scl (required_gp semester targetGPA)) (ungraded semester)
             = Inr (map (recommendation_for scl (required_gp semester targetGPA)) (ungraded semester))"
    by (intro mapE_Inr) (simp add: recommend_value)
  show ?thesis
    unfolding calculateIntraSemesterTarget_def Let_def v bindE_def
    using assms m by (simp add: ungraded_def avgGPANeeded_value Let_def)
qed

lemma intra_total: "\<exists>res. calculateIntraSemesterTarget semester targetGPA scl = Inr res"
proof (cases "ungraded semester = []")
  case True
  obtain v where v: "calculateGPA (filter (\<lambda>c. gradePoint c \<noteq> None) (courses semester)) = Inr v"
    using calculateGPA_total by blast
  show ?thesis
    unfolding calculateIntraSemesterTarget_def Let_def v bindE_def
    using True by (simp add: ungraded_def)
next
  case False
  then show ?thesis using intra_value by blast
qed

lemma needed_pair_cases:
  "needed_pair scl r \<in> set [(0, ''N/A''), (100, ''A+/O+''), (91, ''A+/O''), (81, ''A''), (71, ''B''),
      (61, ''C''), (51, ''D''), (41, ''E''), (0, ''F'')]"
  by (simp add: needed_pair_def BIT_MESRA_10_POINT_def)


lemma intra_no_ungraded:
  assumes "ungraded semester = []"
  shows "\<exists>res. calculateIntraSemesterTarget semester targetGPA scl = Inr res
           \<and> recommendations res = []"
proof -
  obtain v where v: "calculateGPA (filter (\<lambda>c. gradePoint c \<noteq> None) (courses semester)) = Inr v"
    using calculateGPA_total by blast
  show ?thesis
    unfolding calculateIntraSemesterTarget_def Let_def v bindE_def
    using assms by (simp add: ungraded_def)
qed

lemma recommendation_for_feasible:
  "rec_feasible (recommendation_for scl r course) \<and> marksNeeded (recommendation_for scl r course) \<le> 100"
  using needed_pair_cases[of scl r]
  by (auto simp: recommendation_for_def js_round_def)

text \<open>
  Claim C10. For every semester, target GPA and scale the solver returns a result, and
  every recommendation in it is feasible with \<^verbatim>\<open>marksNeeded\<close> at most 100.
\<close>

theorem recommendations_always_feasible:
  "\<exists>res. calculateIntraSemesterTarget semester targetGPA scl = Inr res
     \<and> (\<forall>r\<in>set (recommendations res). rec_feasible r \<and> marksNeeded r \<le> 100)"
proof (cases "ungraded semester = []")
  case True
  then show ?thesis
    using intra_no_ungraded[of semester targetGPA scl] by auto
next
  case False
  then show ?thesis
    using intra_value[of semester targetGPA scl] recommendation_for_feasible by auto
qed



lemma claimed_recommendation_for:
  "claimed_recommendation BIT_MESRA_10_POINT r (recommendation_for 10 r course)"
  by (simp add: claimed_recommendation_def min_marks_mapping_def recommendation_for_def
        needed_pair_def BIT_MESRA_10_POINT_def js_round_def)

lemma recommendation_without_template:
  assumes "scl \<noteq> 10"
  shows "marksNeeded (recommendation_for scl r course) = 0"
    and "gradeNeeded (recommendation_for scl r course) = ''N/A''"
    and "rec_feasible (recommendation_for scl r course)"
  using assms by (simp_all add: recommendation_for_def needed_pair_def js_round_def)

lemma calculateTargetGPA_total:
  "\<exists>r. calculateTargetGPA session target remaining = Inr r
     \<and> requiredGPA r
         = or_zero (roundForDisplay
             (Some (if remaining > 0 then closed_form session target remaining else 0)))"
proof -
  obtain v where v: "calculateCGPA (semesters session) = Inr v"
    using calculateCGPA_total by blast
  have cur: "or_zero v = currentCGPA_of session"
    by (simp add: currentCGPA_of_def v or_zero_def split: option.splits)
  show ?thesis
    unfolding calculateTargetGPA_def v bindE_def
    by (simp add: Let_def cur js_div_def foldl_add_sum_list closed_form_def
          creditsCompleted_of_def)
qed

text \<open>
  Claim C8. With \<^verbatim>\<open>remainingCredits = 0\<close> the solver across semesters returns the
  required GPA 0. When the ungraded courses of a semester total 0 credits, the solver
  inside the semester takes 0 as the required grade point, and its result (for a
  positive scale and at least one ungraded course) carries that 0 in the "easily
  achievable" message. Neither solver ever divides by zero: on every input both return
  a result.
\<close>

theorem solvers_guard_zero_remaining:
  "map_sum id requiredGPA (calculateTargetGPA session target 0) = Inr 0
   \<and> (remainingCredits_of semester = 0 \<longrightarrow> avgGPANeeded semester targetGPA = Inr 0)
   \<and> (remainingCredits_of semester = 0 \<and> ungraded semester \<noteq> [] \<and> 0 < scl \<longrightarrow>
        map_sum id ist_message (calculateIntraSemesterTarget semester targetGPA scl)
          = Inr (IntraEasilyAchievable 0))
   \<and> (\<exists>r. calculateTargetGPA session target remaining = Inr r)
   \<and> (\<exists>r. calculateIntraSemesterTarget semester targetGPA scl = Inr r)"
proof (intro conjI impI)
  show "map_sum id requiredGPA (calculateTargetGPA session target 0) = Inr 0"
    using calculateTargetGPA_total[of session target 0]
    by (auto simp: or_zero_def roundForDisplay_def js_round_def)
  show "\<exists>r. calculateTargetGPA session target remaining = Inr r"
    using calculateTargetGPA_total by blast
  show "\<exists>r. calculateIntraSemesterTarget semester targetGPA scl = Inr r"
    by (rule intra_total)
next
  assume "remainingCredits_of semester = 0"
  then show "avgGPANeeded semester targetGPA = Inr 0"
    by (simp add: avgGPANeeded_value required_gp_def)
next
  assume a: "remainingCredits_of semester = 0 \<and> ungraded semester \<noteq> [] \<and> 0 < scl"
  then have z: "required_gp semester targetGPA = 0"
    by (simp add: required_gp_def)
  from a obtain res where "calculateIntraSemesterTarget semester targetGPA scl = Inr res"
    and "ist_message res
               = (let avg = required_gp semester targetGPA in
                  if \<not> (avg \<le> scl \<and> avg \<ge> 0) then
                    (if avg > scl then IntraNotAchievable avg scl else IntraAlreadyExceeded)
                  else if avg \<ge> scl * 0.9 then IntraVeryChallenging avg
                  else if avg \<ge> scl * 0.7 then IntraAchievableGood avg
                  else IntraEasilyAchievable avg)"
    using intra_value[of semester targetGPA scl] by blast
  then show "map_sum id ist_message (calculateIntraSemesterTarget semester targetGPA scl)
          = Inr (IntraEasilyAchievable 0)"
    using a z by (simp add: Let_def)
qed


lemmas run_defs =
  calculateIntraSemesterTarget_def avgGPANeeded_def recommend_def calculateGPA_def
  bindE_def js_div_def js_round_def or_zero_def Let_def BIT_MESRA_10_POINT_def
  courseSemester_def mkCourse_def

lemma open_semester_run:
  "map_sum id recommendations (calculateIntraSemesterTarget open_semester 9.5 10)
     = Inr [\<lparr>courseName = ''open'', currentMarks = None, marksNeeded = 91,
              gradeNeeded = ''A+/O'', rec_feasible = True\<rparr>]"
  "map_sum id recommendations (calculateIntraSemesterTarget open_semester 10 10)
     = Inr [\<lparr>courseName = ''open'', currentMarks = None, marksNeeded = 100,
              gradeNeeded = ''A+/O+'', rec_feasible = True\<rparr>]"
  by (simp_all add: open_semester_def run_defs)

lemma open_semester_required:
  "ungraded open_semester \<noteq> []"
  "required_gp open_semester 9.5 = 10"
  "required_gp open_semester 10 = 11"
  by (simp_all add: open_semester_def ungraded_def graded_def required_gp_def requiredAvgGP_def
        remainingCredits_of_def credits_of_def points_of_def courseSemester_def mkCourse_def)

theorem recommendations_always_feasible_witness:
  "map_sum id (map rec_feasible \<circ> recommendations)
     (calculateIntraSemesterTarget open_semester 10 10) = Inr [True]"
  using recommendations_always_feasible [of open_semester 10 10] open_semester_run(2)
  by (auto simp: map_sum_def split: sum.splits)

text \<open>
  Claim C4, as stated, fails on the 4-point scale: for one ungraded course of 3 credits
  and the target 3 the required grade point is 3, and the recommendation is 0 marks and
  \<^verbatim>\<open>N/A\<close>, which is the recommendation of the specification on neither template.
\<close>

theorem recommendations_from_template_counterexample:
  "requiredAvgGP four_point_semester 3 = 3
   \<and> map_sum id recommendations (calculateIntraSemesterTarget four_point_semester 3 4)
       = Inr [\<lparr>courseName = ''open'', currentMarks = None, marksNeeded = 0,
                gradeNeeded = ''N/A'', rec_feasible = True\<rparr>]
   \<and> \<not> claimed_recommendation STANDARD_4_POINT 3
         \<lparr>courseName = ''open'', currentMarks = None, marksNeeded = 0,
          gradeNeeded = ''N/A'', rec_feasible = True\<rparr>
   \<and> \<not> claimed_recommendation BIT_MESRA_10_POINT 3
         \<lparr>courseName = ''open'', currentMarks = None, marksNeeded = 0,
          gradeNeeded = ''N/A'', rec_feasible = True\<rparr>"
  by (simp add: four_point_semester_def run_defs requiredAvgGP_def remainingCredits_of_def
        ungraded_def graded_def credits_of_def points_of_def claimed_recommendation_def
        min_marks_mapping_def STANDARD_4_POINT_def)

theorem solvers_guard_zero_remaining_witness:
  "remainingCredits_of zero_credit_semester = 0
   \<and> ungraded zero_credit_semester \<noteq> []
   \<and> avgGPANeeded zero_credit_semester 9.5 = Inr 0
   \<and> map_sum id ist_message (calculateIntraSemesterTarget zero_credit_semester 9.5 10)
       = Inr (IntraEasilyAchievable 0)
   \<and> map_sum id requiredGPA (calculateTargetGPA target_scenario 8 0) = Inr 0"
proof -
  have h: "remainingCredits_of zero_credit_semester = 0" "ungraded zero_credit_semester \<noteq> []"
    by (simp_all add: zero_credit_semester_def remainingCredits_of_def ungraded_def
          credits_of_def courseSemester_def mkCourse_def)
  show ?thesis
    using solvers_guard_zero_remaining
            [where semester = zero_credit_semester and targetGPA = "9.5" and scl = 10
               and session = target_scenario and target = 8]
          h
    by simp
qed

section \<open>The solvers over a machine arithmetic\<close>

lemma exact_simps:
  "m_add exact a b = a + b" "m_sub exact a b = a - b" "m_mul exact a b = a * b"
  "m_div exact a b = a / b" "m_lit exact a = a"
  by (simp_all add: exact_def)

lemma js_div_in_exact: "js_div_in exact a b = js_div a b"
  by (simp add: js_div_in_def js_div_def exact_simps)

lemma gpa_loop_in_exact: "gpa_loop_in exact cs acc = gpa_loop cs acc"
  by (induction cs acc rule: gpa_loop.induct) (auto simp: exact_simps split: option.splits)

lemma calculateGPA_in_exact: "calculateGPA_in exact cs = calculateGPA cs"
  by (simp add: calculateGPA_in_def calculateGPA_def gpa_loop_in_exact js_div_in_exact
        cong: if_cong)






lemma avgGPANeeded_in_exact: "avgGPANeeded_in exact semester targetGPA = avgGPANeeded semester targetGPA"
  by (simp add: avgGPANeeded_in_def avgGPANeeded_def js_div_in_exact exact_simps cong: if_cong)

lemma calculateIntraSemesterTarget_in_exact:
  "calculateIntraSemesterTarget_in exact semester targetGPA scl
     = calculateIntraSemesterTarget semester targetGPA scl"
  by (simp add: calculateIntraSemesterTarget_in_def calculateIntraSemesterTarget_def
        calculateGPA_in_exact avgGPANeeded_in_exact exact_simps cong: if_cong)

lemma calculateGPA_in_total: "\<exists>v. calculateGPA_in ar cs = Inr v"
  by (simp add: calculateGPA_in_def js_div_in_def bindE_def split: prod.splits)




lemma sum_in_exact: "sum_in exact f xs = (\<Sum>x\<leftarrow>xs. f x)"
  by (simp add: sum_in_def exact_simps foldl_add_sum_list)



lemma intra_in_value:
  assumes "ungraded semester \<noteq> []"
  shows "\<exists>res. calculateIntraSemesterTarget_in ar semester targetGPA scl = Inr res
           \<and> recommendations res
               = map (recommendation_for scl (required_gp_in ar semester targetGPA)) (ungraded semester)"
proof -
  obtain v where v: "calculateGPA_in ar (filter (\<lambda>c. gradePoint c \<noteq> None) (courses semester)) = Inr v"
    using calculateGPA_in_total by blast
  have pts: "foldl (\<lambda>sum c. m_add ar sum (m_mul ar (or_zero (gradePoint c)) (credits c))) 0 (graded semester)
               = sum_in ar (\<lambda>c. m_mul ar (the (gradePoint c)) (credits c)) (graded semester)"
    unfolding sum_in_def
    by (rule foldl_cong) (auto simp: graded_def or_zero_def)
  have a: "avgGPANeeded_in ar semester targetGPA = Inr (required_gp_in ar semester targetGPA)"
    using pts
    by (simp add: avgGPANeeded_in_def Let_def js_div_in_def required_gp_in_def
          requiredAvgGP_in_def remainingCredits_in_def sum_in_def ungraded_def graded_def)
  have m: "mapE (recommend scl (required_gp_in ar semester targetGPA)) (ungraded semester)
             = Inr (map (recommendation_for scl (required_gp_in ar semester targetGPA)) (ungraded semester))"
    by (intro mapE_Inr) (simp add: recommend_value)
  show ?thesis
    unfolding calculateIntraSemesterTarget_in_def Let_def v bindE_def
    using assms m by (simp add: ungraded_def a Let_def)
qed

text \<open>
  Claim C4, as amended, for every arithmetic. For a semester with at least one ungraded
  course the solver returns one recommendation per ungraded course, in order. With
  \<^verbatim>\<open>scale = 10\<close> each is the recommendation of the specification on the 10-point
  template for the required grade point that the arithmetic computes, which is
  \<open>requiredAvgGP_in\<close> when the sum of the ungraded credits is positive and 0 otherwise.
  With any other scale no template applies: \<^verbatim>\<open>marksNeeded\<close> is 0 and \<^verbatim>\<open>gradeNeeded\<close>
  is \<^verbatim>\<open>N/A\<close>. On the exact arithmetic this is the function of the first form.
\<close>

theorem recommendations_from_template_machine:
  assumes "ungraded semester \<noteq> []"
  shows "(\<exists>res. calculateIntraSemesterTarget_in ar semester targetGPA scl = Inr res
     \<and> map courseName (recommendations res) = map name (ungraded semester)
     \<and> (\<forall>rec\<in>set (recommendations res).
          (scl = 10 \<longrightarrow>
             claimed_recommendation BIT_MESRA_10_POINT (required_gp_in ar semester targetGPA) rec)
          \<and> (scl \<noteq> 10 \<longrightarrow>
                marksNeeded rec = 0 \<and> gradeNeeded rec = ''N/A'' \<and> rec_feasible rec)))
     \<and> calculateIntraSemesterTarget_in exact semester targetGPA scl
         = calculateIntraSemesterTarget semester targetGPA scl"
proof -
  obtain res where res: "calculateIntraSemesterTarget_in ar semester targetGPA scl = Inr res"
    and recs: "recommendations res
                 = map (recommendation_for scl (required_gp_in ar semester targetGPA)) (ungraded semester)"
    using intra_in_value[OF assms, of ar targetGPA scl] by blast
  have names: "map courseName (recommendations res) = map name (ungraded semester)"
    unfolding recs by (simp add: recommendation_for_def)
  have each: "\<forall>rec\<in>set (recommendations res).
          (scl = 10 \<longrightarrow>
             claimed_recommendation BIT_MESRA_10_POINT (required_gp_in ar semester targetGPA) rec)
          \<and> (scl \<noteq> 10 \<longrightarrow>
                marksNeeded rec = 0 \<and> gradeNeeded rec = ''N/A'' \<and> rec_feasible rec)"
    unfolding recs
    using claimed_recommendation_for recommendation_without_template by auto
  show ?thesis
    using res names each calculateIntraSemesterTarget_in_exact by blast
qed

lemma required_gp_in_exact: "required_gp_in exact semester targetGPA = required_gp semester targetGPA"
  by (simp add: required_gp_in_def required_gp_def requiredAvgGP_in_def requiredAvgGP_def
        remainingCredits_in_def remainingCredits_of_def sum_in_exact exact_simps
        credits_of_def points_of_def)

theorem recommendations_from_template_machine_witness:
  "ungraded open_semester \<noteq> []
   \<and> required_gp_in exact open_semester 9.5 = 10
   \<and> map_sum id recommendations (calculateIntraSemesterTarget open_semester 9.5 10)
       = Inr [\<lparr>courseName = ''open'', currentMarks = None, marksNeeded = 91,
                gradeNeeded = ''A+/O'', rec_feasible = True\<rparr>]
   \<and> required_gp_in exact open_semester 10 = 11
   \<and> map_sum id recommendations (calculateIntraSemesterTarget open_semester 10 10)
       = Inr [\<lparr>courseName = ''open'', currentMarks = None, marksNeeded = 100,
                gradeNeeded = ''A+/O+'', rec_feasible = True\<rparr>]"
  using recommendations_from_template_machine [OF open_semester_required(1), of exact "9.5" 10]
    open_semester_run open_semester_required
  by (simp add: required_gp_in_exact)

section \<open>The grade distribution\<close>

lemma put_map_of: "map_of (put k v d) = (map_of d)(k \<mapsto> v)"
  by (induction k v d rule: put.induct) auto

lemma put_keys: "fst ` set (put k v d) = insert k (fst ` set d)"
  by (induction k v d rule: put.induct) auto

lemma put_distinct: "distinct (map fst d) \<Longrightarrow> distinct (map fst (put k v d))"
  by (induction k v d rule: put.induct) (auto simp: put_keys)

lemma bump_counts:
  assumes "counts_exactly d gs" and "inherited g = None"
  shows "counts_exactly (bump g d) (gs @ [g])"
proof -
  have g: "g \<noteq> ''__proto__''"
    using assms(2) by (auto simp: inherited_def split: if_splits)
  have v: "plus_one d g = Num (count_list gs g + 1)"
    using assms by (simp add: plus_one_def counts_exactly_def)
  show ?thesis
    using assms(1) unfolding counts_exactly_def bump_def
    by (auto simp: g v put_map_of put_distinct)
qed

lemma count_grades_counts:
  assumes "counts_exactly d gs" and "list_all (\<lambda>g. inherited g = None) (grades_of cs)"
  shows "counts_exactly (count_grades cs d) (gs @ grades_of cs)"
  using assms
proof (induction cs arbitrary: d gs)
  case Nil
  then show ?case by (simp add: grades_of_def)
next
  case (Cons c cs)
  show ?case
  proof (cases "grade c")
    case None
    with Cons show ?thesis by (simp add: grades_of_def)
  next
    case (Some g)
    show ?thesis
    proof (cases "g = []")
      case True
      with Some Cons show ?thesis by (simp add: grades_of_def)
    next
      case False
      have plain: "inherited g = None" "list_all (\<lambda>g. inherited g = None) (grades_of cs)"
        using Cons.prems(2) Some False by (simp_all add: grades_of_def)
      have "counts_exactly (count_grades cs (bump g d)) ((gs @ [g]) @ grades_of cs)"
        by (intro Cons.IH bump_counts Cons.prems(1) plain)
      with Some False show ?thesis by (simp add: grades_of_def)
    qed
  qed
qed

lemma distribution_counts:
  assumes "counts_exactly d gs"
    and "list_all (\<lambda>g. inherited g = None) (concat (map (\<lambda>s. grades_of (courses s)) sems))"
  shows "counts_exactly (foldl (\<lambda>d semester. count_grades (courses semester) d) d sems)
           (gs @ concat (map (\<lambda>s. grades_of (courses s)) sems))"
  using assms
proof (induction sems arbitrary: d gs)
  case Nil
  then show ?case by simp
next
  case (Cons s sems)
  have plain: "list_all (\<lambda>g. inherited g = None) (grades_of (courses s))"
    "list_all (\<lambda>g. inherited g = None) (concat (map (\<lambda>s. grades_of (courses s)) sems))"
    using Cons.prems(2) by simp_all
  have "counts_exactly (foldl (\<lambda>d semester. count_grades (courses semester) d)
                          (count_grades (courses s) d) sems)
          ((gs @ grades_of (courses s)) @ concat (map (\<lambda>s. grades_of (courses s)) sems))"
    by (intro Cons.IH count_grades_counts Cons.prems(1) plain)
  then show ?case by simp
qed

lemma session_distribution:
  assumes "list_all (\<lambda>g. inherited g = None) (letter_grades session)"
  shows "counts_exactly
           (foldl (\<lambda>d semester. count_grades (courses semester) d) [] (semesters session))
           (letter_grades session)"
  using distribution_counts[of "[]" "[]" "semesters session"] assms
  by (simp add: counts_exactly_def letter_grades_def)

lemma counts_exactly_entry:
  assumes "counts_exactly d gs" and "(k, v) \<in> set d"
  shows "v = Num (count_list gs k)"
proof -
  have dist: "distinct (map fst d)"
    using assms(1) by (simp add: counts_exactly_def)
  have "map_of d k = Some v"
    using dist assms(2) by simp
  moreover have "map_of d k = (if k \<in> set gs then Some (Num (count_list gs k)) else None)"
    using assms(1) by (simp add: counts_exactly_def)
  ultimately show ?thesis
    by (auto split: if_splits)
qed

lemma counts_exactly_keys:
  assumes "counts_exactly d gs"
  shows "fst ` set d = set gs"
proof -
  have "dom (map_of d) = set gs"
    using assms by (auto simp: counts_exactly_def dom_def split: if_splits)
  then show ?thesis by (simp add: dom_map_of_conv_image_fst)
qed

lemma counts_exactly_empty: "counts_exactly d gs \<Longrightarrow> d = [] \<longleftrightarrow> gs = []"
  using counts_exactly_keys[of d gs] by auto

lemma distinct_map_insort_key:
  "distinct (map g (insort_key f x xs)) \<longleftrightarrow> g x \<notin> g ` set xs \<and> distinct (map g xs)"
  by (induction xs) (auto simp: set_insort_key)

lemma distinct_map_sort_key: "distinct (map g (sort_key f xs)) \<longleftrightarrow> distinct (map g xs)"
  by (induction xs) (auto simp: distinct_map_insort_key)

lemma buckets_of_distribution:
  assumes "counts_exactly d gs"
  shows "\<exists>res. sort_by_value (map (\<lambda>(g, v). \<lparr>cd_name = g, cd_value = v, cd_count = v\<rparr>) d) = Inr res
           \<and> distinct (map cd_name res)
           \<and> set (map cd_name res) = set gs
           \<and> (\<forall>b\<in>set res. cd_value b = Num (count_list gs (cd_name b)) \<and> cd_count b = cd_value b)"
proof -
  let ?mk = "\<lambda>(g, v). \<lparr>cd_name = g, cd_value = v, cd_count = v\<rparr>"
  let ?key = "\<lambda>p. case cd_value p of Num n \<Rightarrow> - int n | Str _ \<Rightarrow> 0"
  define res where "res = sort_key ?key (map ?mk d)"
  have entries: "\<forall>b\<in>set (map ?mk d). cd_value b = Num (count_list gs (cd_name b)) \<and> cd_count b = cd_value b"
    using counts_exactly_entry[OF assms] by auto
  then have "list_all (\<lambda>p. case cd_value p of Num _ \<Rightarrow> True | Str _ \<Rightarrow> False) (map ?mk d)"
    by (auto simp: list_all_iff)
  then have r: "sort_by_value (map ?mk d) = Inr res"
    by (simp add: sort_by_value_def res_def)
  have names: "map cd_name (map ?mk d) = map fst d"
    by (induction d) auto
  have names_distinct: "distinct (map cd_name (map ?mk d))"
    using assms by (simp only: names counts_exactly_def)
  have d1: "distinct (map cd_name res)"
    unfolding res_def using names_distinct by (simp only: distinct_map_sort_key)
  have "set (map cd_name res) = set (map cd_name (map ?mk d))"
    unfolding res_def by (simp del: map_map)
  then have d2: "set (map cd_name res) = set gs"
    using counts_exactly_keys[OF assms] by (simp only: names) simp
  have d3: "\<forall>b\<in>set res. cd_value b = Num (count_list gs (cd_name b)) \<and> cd_count b = cd_value b"
    using entries by (simp add: res_def)
  show ?thesis
    using r d1 d2 d3 by blast
qed

text \<open>
  What the projector does when no letter grade of the session names a property that
  objects inherit: with no letter grade at all and a manual GPA in some semester, the
  single bucket \<^verbatim>\<open>Manual Entry\<close>; otherwise one bucket per distinct letter grade, whose
  \<^verbatim>\<open>value\<close> and \<^verbatim>\<open>count\<close> are the number of occurrences of that grade.
\<close>

lemma grade_distribution_of_plain_grades:
  assumes plain: "list_all (\<lambda>g. inherited g = None) (letter_grades session)"
  shows "(letter_grades session = [] \<and> list_ex (\<lambda>s. manualGPA s \<noteq> None) (semesters session) \<longrightarrow>
      getGradeDistribution session
        = Inr [\<lparr>cd_name = ''Manual Entry'', cd_value = Num 1,
                 cd_count = Num (length (filter (\<lambda>s. or_zero (manualGPA s) \<noteq> 0) (semesters session)))\<rparr>])
   \<and> (\<not> (letter_grades session = [] \<and> list_ex (\<lambda>s. manualGPA s \<noteq> None) (semesters session)) \<longrightarrow>
        (\<exists>res. getGradeDistribution session = Inr res
           \<and> distinct (map cd_name res)
           \<and> set (map cd_name res) = set (letter_grades session)
           \<and> (\<forall>b\<in>set res. cd_value b = Num (count_list (letter_grades session) (cd_name b))
                           \<and> cd_count b = cd_value b)))"
proof -
  let ?d = "foldl (\<lambda>d semester. count_grades (courses semester) d) [] (semesters session)"
  have c: "counts_exactly ?d (letter_grades session)"
    by (rule session_distribution[OF plain])
  have e: "?d = [] \<longleftrightarrow> letter_grades session = []"
    by (rule counts_exactly_empty[OF c])
  show ?thesis
  proof (cases "letter_grades session = [] \<and> list_ex (\<lambda>s. manualGPA s \<noteq> None) (semesters session)")
    case True
    then show ?thesis
      using e by (simp add: getGradeDistribution_def Let_def)
  next
    case False
    then have r: "getGradeDistribution session
        = sort_by_value (map (\<lambda>(g, v). \<lparr>cd_name = g, cd_value = v, cd_count = v\<rparr>) ?d)"
      using e by (auto simp: getGradeDistribution_def Let_def)
    show ?thesis
      using False buckets_of_distribution[OF c] unfolding r by blast
  qed
qed

lemma distribution_runs:
  "getGradeDistribution manual_only_session
     = Inr [\<lparr>cd_name = ''Manual Entry'', cd_value = Num 1, cd_count = Num 1\<rparr>]"
  "getGradeDistribution letters_session
     = Inr [\<lparr>cd_name = ''A'', cd_value = Num 2, cd_count = Num 2\<rparr>,
            \<lparr>cd_name = ''B'', cd_value = Num 1, cd_count = Num 1\<rparr>]"
  by (simp_all add: manual_only_session_def letters_session_def mkSession_def
        manualSemester_def courseSemester_def mkCourse_def mkGraded_def
        getGradeDistribution_def sort_by_value_def bump_def plus_one_def inherited_def
        prototype_methods_def or_zero_def Let_def)

text \<open>
  Claim C9 at a failing input. \<^verbatim>\<open>constructor\<close> is the letter grade of one course, and
  the bucket of that grade does not hold the count 1 but the text of the inherited
  \<^verbatim>\<open>Object\<close> function followed by \<^verbatim>\<open>1\<close>; the bucket of the grade \<^verbatim>\<open>A\<close> holds its
  count.
\<close>

theorem grade_distribution_inherited_key:
  "letter_grades constructor_session = [''A'', ''constructor'']
   \<and> count_list (letter_grades constructor_session) ''constructor'' = 1
   \<and> getGradeDistribution constructor_session
       = Inr [\<lparr>cd_name = ''A'', cd_value = Num 1, cd_count = Num 1\<rparr>,
              \<lparr>cd_name = ''constructor'',
               cd_value = Str ''function Object() { [native code] }1'',
               cd_count = Str ''function Object() { [native code] }1''\<rparr>]"
  by (simp add: constructor_session_def mkSession_def courseSemester_def mkGraded_def
        letter_grades_def grades_of_def getGradeDistribution_def sort_by_value_def bump_def
        plus_one_def inherited_def prototype_methods_def Let_def)

end
